theory Spec2Isabelle
  imports Main "HOL-Library.Sublist"
begin

section \<open>The build script \<^verbatim>\<open>build.py\<close>\<close>

text \<open>
  \<^verbatim>\<open>build.py\<close> checks that Conan and CMake answer a version probe, prepares two
  directories beside the script and runs three external commands for one of four
  targets. Its functions are embedded one by one. Everything the script asks of its
  surroundings is a field of \<open>env\<close>; what it prints and runs is an event of the
  trace, and what it creates or removes is a change of the file system of \<open>world\<close>.
\<close>

subsection \<open>Python values the script uses\<close>

text \<open>
  \<^verbatim>\<open>str.lower()\<close>, on the ASCII letters (\<^verbatim>\<open>platform.system()\<close> answers ASCII names such
  as \<^verbatim>\<open>Linux\<close>, \<^verbatim>\<open>Windows\<close>, \<^verbatim>\<open>Darwin\<close>).
\<close>

definition lower_char :: "char \<Rightarrow> char" where
  "lower_char c =
     (case map_of (zip ''ABCDEFGHIJKLMNOPQRSTUVWXYZ'' ''abcdefghijklmnopqrstuvwxyz'') c of
        Some d \<Rightarrow> d
      | None \<Rightarrow> c)"

definition lower :: "string \<Rightarrow> string" where
  "lower s = map lower_char s"

text \<open>\<^verbatim>\<open>str(n)\<close> of a non-negative integer: its decimal digits.\<close>

definition digit :: "nat \<Rightarrow> char" where
  "digit d = ''0123456789'' ! d"

fun str_nat :: "nat \<Rightarrow> string" where
  "str_nat n = (if n < 10 then [digit n] else str_nat (n div 10) @ [digit (n mod 10)])"

declare str_nat.simps [simp del]

text \<open>
  Truthiness of an \<^verbatim>\<open>Optional[str]\<close>: \<^verbatim>\<open>not x\<close> holds of \<^verbatim>\<open>None\<close> and of the empty
  string. \<open>fmt_opt\<close> is what an f-string writes for such a value.
\<close>

definition truthy :: "string option \<Rightarrow> bool" where
  "truthy x = (case x of None \<Rightarrow> False | Some s \<Rightarrow> s \<noteq> [])"

definition fmt_opt :: "string option \<Rightarrow> string" where
  "fmt_opt x = (case x of None \<Rightarrow> ''None'' | Some s \<Rightarrow> s)"

text \<open>\<^verbatim>\<open>arch\<close> after \<^verbatim>\<open>if not arch: arch = d\<close>.\<close>

definition or_default :: "string option \<Rightarrow> string \<Rightarrow> string" where
  "or_default x d = (case x of None \<Rightarrow> d | Some s \<Rightarrow> if s = [] then d else s)"

text \<open>\<^verbatim>\<open>s.split(' ')\<close> with a one-character separator, and \<^verbatim>\<open>s.strip()\<close> on ASCII white space.\<close>

fun split_char :: "char \<Rightarrow> string \<Rightarrow> string list" where
  "split_char sep [] = [[]]"
| "split_char sep (c # cs) =
     (if c = sep then [] # split_char sep cs
      else (case split_char sep cs of
              [] \<Rightarrow> [[c]]
            | x # xs \<Rightarrow> (c # x) # xs))"

definition is_space :: "char \<Rightarrow> bool" where
  "is_space c = (of_char c \<in> {9, 10, 11, 12, 13, 28, 29, 30, 31, 32 :: nat})"

definition strip :: "string \<Rightarrow> string" where
  "strip s = rev (dropWhile is_space (rev (dropWhile is_space s)))"

text \<open>The exceptions that can leave a function of the script.\<close>

datatype exn = FileNotFoundError | FileExistsError | NotADirectoryError | IndexError

definition index2 :: "string list \<Rightarrow> exn + string" where
  "index2 xs = (if 2 < length xs then Inr (xs ! 2) else Inl IndexError)"

subsection \<open>Paths, the file system and the trace\<close>

text \<open>
  A \<^verbatim>\<open>pathlib.Path\<close> is its anchor (\<^verbatim>\<open>/\<close>, or a drive such as \<^verbatim>\<open>C:\\<close>) or the child of
  a path; \<open>path_str\<close> is \<^verbatim>\<open>str(p)\<close> for the separator of the host.
\<close>

datatype path = Anchor string | Child path string

fun path_str :: "string \<Rightarrow> path \<Rightarrow> string" where
  "path_str sep (Anchor a) = a"
| "path_str sep (Child (Anchor a) n) = a @ n"
| "path_str sep (Child (Child p m) n) = path_str sep (Child p m) @ sep @ n"

fun parent :: "path \<Rightarrow> path" where
  "parent (Anchor a) = Anchor a"
| "parent (Child p n) = p"

datatype entry = File | Dir

text \<open>
  What \<^verbatim>\<open>subprocess.run\<close> gives back: \<^verbatim>\<open>FileNotFoundError\<close> when the program is not
  found, else the return code and the captured standard output.
\<close>

datatype proc_result = NotFound | Completed int string

text \<open>
  The events of a run, in order: a line printed, or an external command with its working
  directory and what it gave back.
\<close>

datatype event =
    Print string
  | Spawn "string list" "string option" proc_result

record world =
  fs :: "string \<rightharpoonup> entry"
  trace :: "event list"

text \<open>
  The surroundings of a run. \<open>spawn\<close> answers an external command from the events so
  far, its argument list and its working directory. The file system of \<open>world\<close>
  holds the script's own changes only: what an external tool writes is not modelled.
\<close>

record env =
  system_name :: string
  environ :: "string \<rightharpoonup> string"
  cpu_count :: nat
  script_dir :: path
  os_sep :: string
  spawn :: "event list \<Rightarrow> string list \<Rightarrow> string option \<Rightarrow> proc_result"

definition print :: "string \<Rightarrow> world \<Rightarrow> world" where
  "print s w = w\<lparr>trace := trace w @ [Print s]\<rparr>"

definition subprocess_run ::
  "env \<Rightarrow> string list \<Rightarrow> string option \<Rightarrow> world \<Rightarrow> proc_result \<times> world" where
  "subprocess_run env cmd cwd w =
     (let r = spawn env (trace w) cmd cwd
      in (r, w\<lparr>trace := trace w @ [Spawn cmd cwd r]\<rparr>))"

definition path_exists :: "world \<Rightarrow> string \<Rightarrow> bool" where
  "path_exists w s = (fs w s \<noteq> None)"

text \<open>
  \<^verbatim>\<open>p.mkdir(exist_ok=True)\<close>: the parent must be a directory; an existing directory is
  left as it is, an existing file raises.
\<close>

definition mkdir_exist_ok :: "env \<Rightarrow> path \<Rightarrow> world \<Rightarrow> (exn + unit) \<times> world" where
  "mkdir_exist_ok env p w =
     (let s = path_str (os_sep env) p
      in case fs w (path_str (os_sep env) (parent p)) of
           None \<Rightarrow> (Inl FileNotFoundError, w)
         | Some File \<Rightarrow> (Inl NotADirectoryError, w)
         | Some Dir \<Rightarrow>
             (case fs w s of
                Some Dir \<Rightarrow> (Inr (), w)
              | Some File \<Rightarrow> (Inl FileExistsError, w)
              | None \<Rightarrow> (Inr (), w\<lparr>fs := (fs w)(s \<mapsto> Dir)\<rparr>)))"

text \<open>
  \<^verbatim>\<open>shutil.rmtree(p)\<close>: removes the directory and every entry whose name extends it by
  the separator.
\<close>

definition rmtree :: "env \<Rightarrow> path \<Rightarrow> world \<Rightarrow> (exn + unit) \<times> world" where
  "rmtree env p w =
     (let s = path_str (os_sep env) p
      in case fs w s of
           None \<Rightarrow> (Inl FileNotFoundError, w)
         | Some File \<Rightarrow> (Inl NotADirectoryError, w)
         | Some Dir \<Rightarrow>
             (Inr (), w\<lparr>fs := (\<lambda>q. if q = s \<or> prefix (s @ os_sep env) q then None
                                    else fs w q)\<rparr>))"

text \<open>
  Sequencing. \<open>then_do\<close> passes an exception on; \<open>and_then\<close> goes on only after
  \<^verbatim>\<open>True\<close>, so \<^verbatim>\<open>return False\<close> and an exception both end the function.
\<close>

definition then_do ::
  "(exn + 'a) \<times> world \<Rightarrow> ('a \<Rightarrow> world \<Rightarrow> (exn + 'b) \<times> world) \<Rightarrow> (exn + 'b) \<times> world" where
  "then_do m f = (case m of (Inl e, w) \<Rightarrow> (Inl e, w) | (Inr x, w) \<Rightarrow> f x w)"

definition and_then ::
  "(exn + bool) \<times> world \<Rightarrow> (world \<Rightarrow> (exn + bool) \<times> world) \<Rightarrow> (exn + bool) \<times> world" where
  "and_then m f = (case m of (Inr True, w) \<Rightarrow> f w | (r, w) \<Rightarrow> (r, w))"

text \<open>
  \<^verbatim>\<open>result = subprocess.run(cmd, cwd=project_root)\<close> followed by
  \<^verbatim>\<open>if result.returncode != 0: print(err); return False\<close>. \<^verbatim>\<open>True\<close> stands for going on.
\<close>

definition run_checked ::
  "env \<Rightarrow> string list \<Rightarrow> string option \<Rightarrow> string \<Rightarrow> world \<Rightarrow> (exn + bool) \<times> world" where
  "run_checked env cmd cwd err w =
     (case subprocess_run env cmd cwd w of
        (NotFound, w') \<Rightarrow> (Inl FileNotFoundError, w')
      | (Completed rc out, w') \<Rightarrow>
          if rc \<noteq> 0 then (Inr False, print err w') else (Inr True, w'))"

subsection \<open>Platform detection and prerequisites\<close>

definition detect_platform :: "env \<Rightarrow> string" where
  "detect_platform env =
     (let system = lower (system_name env)
      in if system = ''windows'' then ''windows''
         else if system = ''linux'' then ''linux''
         else if system = ''darwin'' then ''macos''
         else ''unknown'')"

definition check_android_prerequisites :: "env \<Rightarrow> world \<Rightarrow> bool \<times> world" where
  "check_android_prerequisites env w =
     (let android_ndk_home = environ env ''ANDROID_NDK_HOME''
      in if \<not> truthy android_ndk_home
         then (False, print ''Error: Please set ANDROID_NDK_HOME environment variable'' w)
         else if \<not> path_exists w (fmt_opt android_ndk_home)
         then (False, print ''Error: ANDROID_NDK_HOME path does not exist'' w)
         else (True, print (''Android NDK path: '' @ fmt_opt android_ndk_home) w))"

definition check_qnx_prerequisites :: "env \<Rightarrow> world \<Rightarrow> bool \<times> world" where
  "check_qnx_prerequisites env w =
     (let qnx_sdp_home = environ env ''QNX_SDP_HOME''
      in if \<not> truthy qnx_sdp_home
         then (False, print ''Error: Please set QNX_SDP_HOME environment variable'' w)
         else if \<not> path_exists w (fmt_opt qnx_sdp_home)
         then (False, print ''Error: QNX_SDP_HOME path does not exist'' w)
         else (True, print (''QNX SDP path: '' @ fmt_opt qnx_sdp_home) w))"

definition conan_probe :: "string list" where
  "conan_probe = [''conan'', ''--version'']"

definition cmake_probe :: "string list" where
  "cmake_probe = [''cmake'', ''--version'']"

text \<open>
  The last block of \<^verbatim>\<open>check_prerequisites\<close> (\<^verbatim>\<open># Platform-specific checks\<close> and the two
  lines after it).
\<close>

definition platform_checks :: "env \<Rightarrow> string option \<Rightarrow> world \<Rightarrow> (exn + bool) \<times> world" where
  "platform_checks env target_platform w =
     (case (if target_platform = Some ''android'' then check_android_prerequisites env w
            else if target_platform = Some ''qnx'' then check_qnx_prerequisites env w
            else (True, w)) of
        (False, w') \<Rightarrow> (Inr False, w')
      | (True, w') \<Rightarrow> (Inr True, print ''Prerequisites check completed'' w'))"

definition check_prerequisites ::
  "env \<Rightarrow> string option \<Rightarrow> world \<Rightarrow> (exn + bool) \<times> world" where
  "check_prerequisites env target_platform w0 =
     (let w1 = print ''Checking build prerequisites...'' w0
      in case subprocess_run env conan_probe None w1 of
           (NotFound, w2) \<Rightarrow> (Inr False, print ''Error: Conan not installed'' w2)
         | (Completed rc out, w2) \<Rightarrow>
             if rc \<noteq> 0 then (Inr False, print ''Error: Conan not installed or not in PATH'' w2)
             else
               (let w3 = print (''Conan version: '' @ strip out) w2
                in case subprocess_run env cmake_probe None w3 of
                     (NotFound, w4) \<Rightarrow> (Inr False, print ''Error: CMake not installed'' w4)
                   | (Completed rc' out', w4) \<Rightarrow>
                       if rc' \<noteq> 0
                       then (Inr False, print ''Error: CMake not installed or not in PATH'' w4)
                       else (case index2 (split_char CHR '' '' out') of
                               Inl e \<Rightarrow> (Inl e, w4)
                             | Inr v \<Rightarrow>
                                 platform_checks env target_platform
                                   (print (''CMake version: '' @ strip v) w4))))"

subsection \<open>The four build functions\<close>

text \<open>
  Each \<^verbatim>\<open>cmd = [...]\<close> of the source is a definition of its own; \<open>cd\<close> is
  \<^verbatim>\<open>str(conan_dir)\<close>. \<open>verbose_flag\<close> is \<^verbatim>\<open>if verbose: cmd.append("--verbose")\<close>.
\<close>

definition verbose_flag :: "bool \<Rightarrow> string list" where
  "verbose_flag verbose = (if verbose then [''--verbose''] else [])"

definition windows_install_cmd :: "string \<Rightarrow> string \<Rightarrow> bool \<Rightarrow> string list" where
  "windows_install_cmd cd arch verbose =
     [''conan'', ''install'', ''.'', ''--output-folder'', cd, ''--build'', ''missing'',
      ''-s'', ''os=Windows'', ''-s'', ''arch='' @ arch, ''-s'', ''compiler=msvc'',
      ''-s'', ''compiler.version=195'', ''-s'', ''compiler.cppstd=17'']
     @ verbose_flag verbose"

definition windows_configure_cmd :: "string \<Rightarrow> string \<Rightarrow> string \<Rightarrow> bool \<Rightarrow> string list" where
  "windows_configure_cmd cd build_type arch verbose =
     [''cmake'', ''-S'', ''.'', ''-B'', ''build'', ''-G'', ''Visual Studio 18 2026'',
      ''-DCMAKE_TOOLCHAIN_FILE='' @ cd @ ''/build/generators/conan_toolchain.cmake'',
      ''-DCMAKE_PREFIX_PATH='' @ cd,
      ''-DCMAKE_BUILD_TYPE='' @ build_type]
     @ (if arch = ''x86'' then [''-A'', ''Win32'']
        else if arch = ''x86_64'' then [''-A'', ''x64'']
        else if arch = ''armv8'' then [''-A'', ''ARM64'']
        else [])
     @ verbose_flag verbose"

definition windows_build_cmd :: "string \<Rightarrow> bool \<Rightarrow> string list" where
  "windows_build_cmd build_type verbose =
     [''cmake'', ''--build'', ''build'', ''--config'', build_type] @ verbose_flag verbose"

definition build_for_windows ::
  "env \<Rightarrow> path \<Rightarrow> path \<Rightarrow> path \<Rightarrow> string \<Rightarrow> string option \<Rightarrow> bool \<Rightarrow> world
     \<Rightarrow> (exn + bool) \<times> world" where
  "build_for_windows env project_root conan_dir build_dir build_type arch0 verbose w0 =
     (let cd = path_str (os_sep env) conan_dir;
          cwd = Some (path_str (os_sep env) project_root);
          w1 = print (''Building Windows version... '' @ cd) w0;
          arch = or_default arch0 ''x86_64''
      in and_then (run_checked env (windows_install_cmd cd arch verbose) cwd
                     ''Error: Conan installation failed'' w1)
           (\<lambda>w2. and_then (run_checked env (windows_configure_cmd cd build_type arch verbose) cwd
                             ''Error: CMake configuration failed'' w2)
                   (\<lambda>w3. run_checked env (windows_build_cmd build_type verbose) cwd
                           ''Error: Build failed'' w3)))"

definition linux_install_cmd :: "string \<Rightarrow> string \<Rightarrow> bool \<Rightarrow> string list" where
  "linux_install_cmd cd arch verbose =
     [''conan'', ''install'', ''.'', ''--output-folder'', cd, ''--build'', ''missing'',
      ''-s'', ''os=Linux'', ''-s'', ''arch='' @ arch, ''-s'', ''compiler=gcc'',
      ''-s'', ''compiler.version=11'', ''-s'', ''compiler.cppstd=17'']
     @ verbose_flag verbose"

definition linux_configure_cmd :: "string \<Rightarrow> string \<Rightarrow> string \<Rightarrow> bool \<Rightarrow> string list" where
  "linux_configure_cmd cd build_type arch verbose =
     [''cmake'', ''-S'', ''.'', ''-B'', ''build'',
      ''-DCMAKE_BUILD_TYPE='' @ build_type,
      ''-DCMAKE_PREFIX_PATH='' @ cd,
      ''-DCMAKE_TOOLCHAIN_FILE='' @ cd @ ''/build/generators/conan_toolchain.cmake'']
     @ (if arch \<noteq> ''x86_64''
        then (if arch = ''x86'' then [''-DCMAKE_C_FLAGS=-m32'', ''-DCMAKE_CXX_FLAGS=-m32'']
              else if arch = ''armv7''
              then [''-DCMAKE_TOOLCHAIN_FILE=cmake/arm-linux-gnueabihf.cmake'']
              else if arch = ''armv8''
              then [''-DCMAKE_TOOLCHAIN_FILE=cmake/aarch64-linux-gnu.cmake'']
              else [])
        else [])
     @ verbose_flag verbose"

definition linux_build_cmd :: "nat \<Rightarrow> bool \<Rightarrow> string list" where
  "linux_build_cmd jobs verbose =
     [''cmake'', ''--build'', ''build'', ''-j'', str_nat jobs] @ verbose_flag verbose"

definition build_for_linux ::
  "env \<Rightarrow> path \<Rightarrow> path \<Rightarrow> path \<Rightarrow> string \<Rightarrow> string option \<Rightarrow> bool \<Rightarrow> world
     \<Rightarrow> (exn + bool) \<times> world" where
  "build_for_linux env project_root conan_dir build_dir build_type arch0 verbose w0 =
     (let cd = path_str (os_sep env) conan_dir;
          cwd = Some (path_str (os_sep env) project_root);
          w1 = print ''Building Linux version...'' w0;
          arch = or_default arch0 ''x86_64''
      in and_then (run_checked env (linux_install_cmd cd arch verbose) cwd
                     ''Error: Conan installation failed'' w1)
           (\<lambda>w2. and_then (run_checked env (linux_configure_cmd cd build_type arch verbose) cwd
                             ''Error: CMake configuration failed'' w2)
                   (\<lambda>w3. run_checked env (linux_build_cmd (cpu_count env) verbose) cwd
                           ''Error: Build failed'' w3)))"

text \<open>The dictionary \<^verbatim>\<open>arch_to_abi\<close> of \<^verbatim>\<open>build_for_android\<close>.\<close>

definition arch_to_abi :: "string \<rightharpoonup> string" where
  "arch_to_abi =
     map_of [(''armv7'', ''armeabi-v7a''), (''armv8'', ''arm64-v8a''),
             (''x86'', ''x86''), (''x86_64'', ''x86_64'')]"

definition android_install_cmd :: "string \<Rightarrow> string \<Rightarrow> bool \<Rightarrow> string list" where
  "android_install_cmd cd arch verbose =
     [''conan'', ''install'', ''.'', ''--output-folder'', cd, ''--build'', ''missing'',
      ''-s'', ''os=Android'', ''-s'', ''arch='' @ arch, ''-s'', ''compiler=clang'',
      ''-s'', ''compiler.version=12'', ''-s'', ''compiler.cppstd=17'']
     @ verbose_flag verbose"

definition android_configure_cmd ::
  "string \<Rightarrow> string option \<Rightarrow> string \<Rightarrow> string \<Rightarrow> bool \<Rightarrow> string list" where
  "android_configure_cmd cd android_ndk_home android_abi build_type verbose =
     [''cmake'', ''-S'', ''.'', ''-B'', ''build/android'',
      ''-DCMAKE_TOOLCHAIN_FILE='' @ fmt_opt android_ndk_home
        @ ''/build/cmake/android.toolchain.cmake'',
      ''-DANDROID_ABI='' @ android_abi,
      ''-DANDROID_PLATFORM=android-24'',
      ''-DCMAKE_BUILD_TYPE='' @ build_type,
      ''-DHUD_ENGINE_PLATFORM_ANDROID=ON'',
      ''-DHUD_ENGINE_USE_EGL=ON'',
      ''-DCMAKE_PREFIX_PATH='' @ cd,
      ''-DCMAKE_TOOLCHAIN_FILE='' @ cd @ ''/build/generators/conan_toolchain.cmake'']
     @ verbose_flag verbose"

definition android_build_cmd :: "bool \<Rightarrow> string list" where
  "android_build_cmd verbose =
     [''cmake'', ''--build'', ''build/android'', ''-j'', ''4''] @ verbose_flag verbose"

definition build_for_android ::
  "env \<Rightarrow> path \<Rightarrow> path \<Rightarrow> path \<Rightarrow> string \<Rightarrow> string option \<Rightarrow> bool \<Rightarrow> world
     \<Rightarrow> (exn + bool) \<times> world" where
  "build_for_android env project_root conan_dir build_dir build_type arch0 verbose w0 =
     (let cd = path_str (os_sep env) conan_dir;
          cwd = Some (path_str (os_sep env) project_root);
          w1 = print ''Building Android version...'' w0;
          android_ndk_home = environ env ''ANDROID_NDK_HOME'';
          android_build_dir = Child build_dir ''android''
      in then_do (mkdir_exist_ok env android_build_dir w1)
           (\<lambda>_ w2.
              let arch = or_default arch0 ''armv8''
              in case arch_to_abi arch of
                   None \<Rightarrow>
                     (Inr False, print (''Error: Unsupported Android architecture: '' @ arch) w2)
                 | Some android_abi \<Rightarrow>
                     and_then (run_checked env (android_install_cmd cd arch verbose) cwd
                                 ''Error: Conan installation failed'' w2)
                       (\<lambda>w3. and_then
                                (run_checked env
                                   (android_configure_cmd cd android_ndk_home android_abi
                                      build_type verbose)
                                   cwd ''Error: Android CMake configuration failed'' w3)
                                (\<lambda>w4. run_checked env (android_build_cmd verbose) cwd
                                        ''Error: Android build failed'' w4))))"

definition qnx_install_cmd :: "string \<Rightarrow> string \<Rightarrow> bool \<Rightarrow> string list" where
  "qnx_install_cmd cd arch verbose =
     [''conan'', ''install'', ''.'', ''--output-folder'', cd, ''--build'', ''missing'',
      ''-s'', ''os=Neutrino'', ''-s'', ''arch='' @ arch, ''-s'', ''compiler=qcc'',
      ''-s'', ''compiler.version=5.4'', ''-s'', ''compiler.cppstd=17'']
     @ verbose_flag verbose"

definition qnx_configure_cmd ::
  "string \<Rightarrow> string option \<Rightarrow> string \<Rightarrow> string \<Rightarrow> bool \<Rightarrow> string list" where
  "qnx_configure_cmd cd qnx_sdp_home build_type arch verbose =
     [''cmake'', ''-S'', ''.'', ''-B'', ''build/qnx'',
      ''-DCMAKE_TOOLCHAIN_FILE='' @ fmt_opt qnx_sdp_home @ ''/qnx710/cmake/toolchain.cmake'',
      ''-DCMAKE_BUILD_TYPE='' @ build_type,
      ''-DHUD_ENGINE_PLATFORM_QNX=ON'',
      ''-DHUD_ENGINE_USE_EGL=ON'',
      ''-DCMAKE_PREFIX_PATH='' @ cd,
      ''-DCMAKE_TOOLCHAIN_FILE='' @ cd @ ''/build/generators/conan_toolchain.cmake'']
     @ (if arch = ''x86'' then [''-DQNX_TARGET_CPU=x86'']
        else if arch = ''armv7'' then [''-DQNX_TARGET_CPU=armv7'']
        else if arch = ''armv8'' then [''-DQNX_TARGET_CPU=aarch64le'']
        else [])
     @ verbose_flag verbose"

definition qnx_build_cmd :: "bool \<Rightarrow> string list" where
  "qnx_build_cmd verbose =
     [''cmake'', ''--build'', ''build/qnx'', ''-j'', ''4''] @ verbose_flag verbose"

text \<open>The first line \<^verbatim>\<open>build_for_qnx\<close> prints is not ASCII; these are its UTF-8 bytes.\<close>

definition qnx_building_line :: string where
  "qnx_building_line =
     [CHR 0xE6, CHR 0x9E, CHR 0x84, CHR 0xE5, CHR 0xBB, CHR 0xBA] @ ''QNX''
     @ [CHR 0xE7, CHR 0x89, CHR 0x88, CHR 0xE6, CHR 0x9C, CHR 0xAC] @ ''...''"

definition build_for_qnx ::
  "env \<Rightarrow> path \<Rightarrow> path \<Rightarrow> path \<Rightarrow> string \<Rightarrow> string option \<Rightarrow> bool \<Rightarrow> world
     \<Rightarrow> (exn + bool) \<times> world" where
  "build_for_qnx env project_root conan_dir build_dir build_type arch0 verbose w0 =
     (let cd = path_str (os_sep env) conan_dir;
          cwd = Some (path_str (os_sep env) project_root);
          w1 = print qnx_building_line w0;
          qnx_sdp_home = environ env ''QNX_SDP_HOME'';
          qnx_build_dir = Child build_dir ''qnx''
      in then_do (mkdir_exist_ok env qnx_build_dir w1)
           (\<lambda>_ w2.
              let arch = or_default arch0 ''armv7''
              in and_then (run_checked env (qnx_install_cmd cd arch verbose) cwd
                             ''Error: Conan installation failed'' w2)
                   (\<lambda>w3. and_then
                            (run_checked env
                               (qnx_configure_cmd cd qnx_sdp_home build_type arch verbose)
                               cwd ''Error: QNX CMake configuration failed'' w3)
                            (\<lambda>w4. run_checked env (qnx_build_cmd verbose) cwd
                                    ''Error: QNX build failed'' w4))))"

subsection \<open>The orchestrator and the command line\<close>

text \<open>
  \<^verbatim>\<open>build_project\<close> is embedded block by block. First its \<^verbatim>\<open>if clean:\<close> block, which
  removes the two directories that exist.
\<close>

definition clean_old_build :: "env \<Rightarrow> path \<Rightarrow> path \<Rightarrow> world \<Rightarrow> (exn + unit) \<times> world" where
  "clean_old_build env build_dir conan_dir w =
     then_do
       (if path_exists w (path_str (os_sep env) build_dir)
        then then_do (rmtree env build_dir w)
               (\<lambda>_ w'. (Inr (), print ''Cleaned old build directory'' w'))
        else (Inr (), w))
       (\<lambda>_ w'.
          if path_exists w' (path_str (os_sep env) conan_dir)
          then then_do (rmtree env conan_dir w')
                 (\<lambda>_ w''. (Inr (), print ''Cleaned old Conan directory'' w''))
          else (Inr (), w'))"

text \<open>
  The nine lines printed before anything is done, and \<^verbatim>\<open>print\<close> called on each line of
  a list in turn.
\<close>

definition banner :: "string \<Rightarrow> string option \<Rightarrow> string \<Rightarrow> string \<Rightarrow> string \<Rightarrow> string list" where
  "banner target_platform arch build_type bd cd =
     [replicate 60 CHR ''='',
      ''3D HUD Rendering Engine - Cross-Platform Build Script'',
      replicate 60 CHR ''='',
      ''Target platform: '' @ target_platform,
      ''Target architecture: '' @ fmt_opt arch,
      ''Build type: '' @ build_type,
      ''Build directory: '' @ bd,
      ''Conan directory: '' @ cd,
      replicate 60 CHR ''-'']"

definition print_all :: "string list \<Rightarrow> world \<Rightarrow> world" where
  "print_all ls w = fold print ls w"

text \<open>
  The blocks of \<^verbatim>\<open>build_project\<close>: the target (\<^verbatim>\<open>if not target_platform\<close>), the
  architecture (\<^verbatim>\<open>if not arch\<close>) and the platform-specific build.
\<close>

definition select_platform :: "env \<Rightarrow> string option \<Rightarrow> string" where
  "select_platform env target_platform =
     (if \<not> truthy target_platform then detect_platform env else fmt_opt target_platform)"

definition select_arch :: "string \<Rightarrow> string option \<Rightarrow> string option" where
  "select_arch target_platform arch =
     (if \<not> truthy arch
      then (if target_platform = ''windows'' then Some ''x86_64''
            else if target_platform = ''linux'' then Some ''x86_64''
            else if target_platform = ''android'' then Some ''armv8''
            else if target_platform = ''qnx'' then Some ''armv7''
            else arch)
      else arch)"

definition platform_build ::
  "env \<Rightarrow> string \<Rightarrow> path \<Rightarrow> path \<Rightarrow> path \<Rightarrow> string \<Rightarrow> string option \<Rightarrow> bool \<Rightarrow> world
     \<Rightarrow> (exn + bool) \<times> world" where
  "platform_build env target_platform project_root conan_dir build_dir build_type arch verbose w =
     (if target_platform = ''windows''
      then build_for_windows env project_root conan_dir build_dir build_type arch verbose w
      else if target_platform = ''linux''
      then build_for_linux env project_root conan_dir build_dir build_type arch verbose w
      else if target_platform = ''android''
      then build_for_android env project_root conan_dir build_dir build_type arch verbose w
      else if target_platform = ''qnx''
      then build_for_qnx env project_root conan_dir build_dir build_type arch verbose w
      else (Inr False, print (''Error: Unsupported platform: '' @ target_platform) w))"

text \<open>The three lines printed \<^verbatim>\<open>if success:\<close>; the first starts with a newline.\<close>

definition success_lines :: "string list" where
  "success_lines =
     [CHR 0x0A # replicate 60 CHR ''='', ''Build completed successfully!'',
      replicate 60 CHR ''='']"

definition build_project ::
  "env \<Rightarrow> string option \<Rightarrow> string option \<Rightarrow> bool \<Rightarrow> bool \<Rightarrow> string \<Rightarrow> world
     \<Rightarrow> (exn + bool) \<times> world" where
  "build_project env target_platform0 arch0 clean verbose build_type w0 =
     (let project_root = script_dir env;
          build_dir = Child project_root ''build'';
          conan_dir = Child project_root ''conan'';
          target_platform = select_platform env target_platform0;
          arch = select_arch target_platform arch0;
          w1 = print_all (banner target_platform arch build_type
                            (path_str (os_sep env) build_dir) (path_str (os_sep env) conan_dir)) w0
      in then_do (if clean then clean_old_build env build_dir conan_dir w1 else (Inr (), w1))
           (\<lambda>_ w2. then_do (mkdir_exist_ok env build_dir w2)
           (\<lambda>_ w3. then_do (mkdir_exist_ok env conan_dir w3)
           (\<lambda>_ w4. then_do (platform_build env target_platform project_root conan_dir build_dir
                               build_type arch verbose w4)
           (\<lambda>success w5.
              (Inr success, if success then print_all success_lines w5 else w5))))))"



definition platform_choices :: "string list" where
  "platform_choices = [''windows'', ''linux'', ''android'', ''qnx'']"

definition arch_choices :: "string list" where
  "arch_choices = [''x86'', ''x86_64'', ''armv7'', ''armv8'']"

definition build_type_choices :: "string list" where
  "build_type_choices = [''Debug'', ''Release'', ''RelWithDebInfo'']"


record args =
  args_platform :: "string option"
  args_arch :: "string option"
  args_build_type :: string
  args_verbose :: bool
  args_clean :: bool

definition accepted :: "args \<Rightarrow> bool" where
  "accepted a =
     ((case args_platform a of None \<Rightarrow> True | Some p \<Rightarrow> p \<in> set platform_choices)
      \<and> (case args_arch a of None \<Rightarrow> True | Some x \<Rightarrow> x \<in> set arch_choices)
      \<and> args_build_type a \<in> set build_type_choices)"

text \<open>
  How the process ends: \<^verbatim>\<open>sys.exit(n)\<close>, or an exception nobody catches, after which
  the interpreter prints a traceback and exits with status 1.
\<close>

datatype outcome = Exit int | Uncaught exn

fun exit_status :: "outcome \<Rightarrow> int" where
  "exit_status (Exit n) = n"
| "exit_status (Uncaught e) = 1"

definition main :: "env \<Rightarrow> args \<Rightarrow> (string \<rightharpoonup> entry) \<Rightarrow> outcome \<times> world" where
  "main env a fs0 =
     (case check_prerequisites env (args_platform a) \<lparr>fs = fs0, trace = []\<rparr> of
        (Inl e, w1) \<Rightarrow> (Uncaught e, w1)
      | (Inr False, w1) \<Rightarrow> (Exit 1, w1)
      | (Inr True, w1) \<Rightarrow>
          (case build_project env (args_platform a) (args_arch a) (args_clean a)
                  (args_verbose a) (args_build_type a) w1 of
             (Inl e, w2) \<Rightarrow> (Uncaught e, w2)
           | (Inr success, w2) \<Rightarrow> (Exit (if success then 0 else 1), w2)))"

subsection \<open>Reading a run\<close>

text \<open>
  The command lines of a trace, in order; the events that are a command that did not
  return 0; the command events alone.
\<close>

fun commands :: "event list \<Rightarrow> string list list" where
  "commands [] = []"
| "commands (Spawn c d r # es) = c # commands es"
| "commands (Print s # es) = commands es"

fun failed :: "event \<Rightarrow> bool" where
  "failed (Spawn c d NotFound) = True"
| "failed (Spawn c d (Completed rc out)) = (rc \<noteq> 0)"
| "failed (Print s) = False"

fun spawns :: "event list \<Rightarrow> event list" where
  "spawns [] = []"
| "spawns (Spawn c d r # es) = Spawn c d r # spawns es"
| "spawns (Print s # es) = spawns es"

text \<open>
  What \<^verbatim>\<open>check_android_prerequisites\<close> and \<^verbatim>\<open>check_qnx_prerequisites\<close> ask of a variable:
  it is set, not empty, and names an entry of the file system.
\<close>

definition home_ok :: "env \<Rightarrow> world \<Rightarrow> string \<Rightarrow> bool" where
  "home_ok env w var = (case environ env var of None \<Rightarrow> False | Some h \<Rightarrow> h \<noteq> [] \<and> fs w h \<noteq> None)"

text \<open>\<^verbatim>\<open>str(conan_dir)\<close> and \<^verbatim>\<open>str(build_dir)\<close> of \<^verbatim>\<open>build_project\<close>.\<close>

definition conan_dir_str :: "env \<Rightarrow> string" where
  "conan_dir_str env = path_str (os_sep env) (Child (script_dir env) ''conan'')"

definition build_dir_str :: "env \<Rightarrow> string" where
  "build_dir_str env = path_str (os_sep env) (Child (script_dir env) ''build'')"

text \<open>
  The table of the build: for a target, the three command lines of its build function,
  each with the line printed when it does not return 0. Its keys are the target, the
  architecture and the build type, and with them the verbose flag, \<^verbatim>\<open>str(conan_dir)\<close>,
  the CPU count and the two environment variables. \<open>command_table\<close> puts the two
  version probes in front.
\<close>

definition build_steps ::
  "string \<Rightarrow> string \<Rightarrow> string \<Rightarrow> bool \<Rightarrow> string \<Rightarrow> nat \<Rightarrow> string option \<Rightarrow> string option
     \<Rightarrow> (string list \<times> string) list" where
  "build_steps target arch build_type verbose cd jobs ndk_home sdp_home =
     (if target = ''windows''
      then [(windows_install_cmd cd arch verbose, ''Error: Conan installation failed''),
            (windows_configure_cmd cd build_type arch verbose,
             ''Error: CMake configuration failed''),
            (windows_build_cmd build_type verbose, ''Error: Build failed'')]
      else if target = ''linux''
      then [(linux_install_cmd cd arch verbose, ''Error: Conan installation failed''),
            (linux_configure_cmd cd build_type arch verbose,
             ''Error: CMake configuration failed''),
            (linux_build_cmd jobs verbose, ''Error: Build failed'')]
      else if target = ''android''
      then (case arch_to_abi arch of
              None \<Rightarrow> []
            | Some android_abi \<Rightarrow>
                [(android_install_cmd cd arch verbose, ''Error: Conan installation failed''),
                 (android_configure_cmd cd ndk_home android_abi build_type verbose,
                  ''Error: Android CMake configuration failed''),
                 (android_build_cmd verbose, ''Error: Android build failed'')])
      else if target = ''qnx''
      then [(qnx_install_cmd cd arch verbose, ''Error: Conan installation failed''),
            (qnx_configure_cmd cd sdp_home build_type arch verbose,
             ''Error: QNX CMake configuration failed''),
            (qnx_build_cmd verbose, ''Error: QNX build failed'')]
      else [])"

definition command_table ::
  "string \<Rightarrow> string \<Rightarrow> string \<Rightarrow> bool \<Rightarrow> string \<Rightarrow> nat \<Rightarrow> string option \<Rightarrow> string option
     \<Rightarrow> string list list" where
  "command_table target arch build_type verbose cd jobs ndk_home sdp_home =
     [conan_probe, cmake_probe]
     @ map fst (build_steps target arch build_type verbose cd jobs ndk_home sdp_home)"

subsection \<open>Devices of the proofs\<close>

text \<open>
  \<open>run_all\<close> runs a list of checked commands as the build functions run their three;
  \<open>run_spec\<close> lists the events and the result such a run can have. \<open>build_facts\<close> and
  \<open>prereq_facts\<close> collect what the proofs need of the events a function adds to the
  trace, \<open>only_creates\<close> what they need of two file systems.
\<close>

fun run_all ::
  "env \<Rightarrow> string option \<Rightarrow> (string list \<times> string) list \<Rightarrow> world \<Rightarrow> (exn + bool) \<times> world" where
  "run_all env cwd [] w = (Inr True, w)"
| "run_all env cwd ((cmd, err) # steps) w =
     and_then (run_checked env cmd cwd err w) (run_all env cwd steps)"

inductive run_spec ::
  "string option \<Rightarrow> (string list \<times> string) list \<Rightarrow> event list \<Rightarrow> exn + bool \<Rightarrow> bool"
  for cwd where
  finished: "run_spec cwd [] [] (Inr True)"
| went_on: "run_spec cwd steps new r \<Longrightarrow>
     run_spec cwd ((c, err) # steps) (Spawn c cwd (Completed 0 out) # new) r"
| stopped: "rc \<noteq> 0 \<Longrightarrow>
     run_spec cwd ((c, err) # steps) [Spawn c cwd (Completed rc out), Print err] (Inr False)"
| not_found:
    "run_spec cwd ((c, err) # steps) [Spawn c cwd NotFound] (Inl FileNotFoundError)"

definition build_facts :: "(string list \<times> string) list \<Rightarrow> event list \<Rightarrow> exn + bool \<Rightarrow> bool" where
  "build_facts steps new r =
     (prefix (commands new) (map fst steps)
      \<and> ((r = Inr True)
           = (steps \<noteq> [] \<and> length (commands new) = length steps \<and> (\<forall>e\<in>set new. \<not> failed e)))
      \<and> (r = Inr False \<longrightarrow>
           new \<noteq> [] \<and> (\<exists>m. last new = Print m \<and> prefix ''Error: '' m)
           \<and> (steps = [] \<or> (\<exists>c d rc out. Spawn c d (Completed rc out) \<in> set new \<and> rc \<noteq> 0)))
      \<and> (\<forall>pre c d rc out post.
            new = pre @ Spawn c d (Completed rc out) # post \<and> rc \<noteq> 0 \<longrightarrow>
            commands post = [] \<and> r = Inr False))"

definition prereq_facts :: "event list \<Rightarrow> exn + bool \<Rightarrow> bool" where
  "prereq_facts new r =
     (prefix (commands new) [conan_probe, cmake_probe]
      \<and> (r = Inr True \<longrightarrow> commands new = [conan_probe, cmake_probe] \<and> (\<forall>e\<in>set new. \<not> failed e))
      \<and> (r = Inr False \<longrightarrow> new \<noteq> [] \<and> (\<exists>m. last new = Print m \<and> prefix ''Error: '' m)))"

definition only_creates :: "string set \<Rightarrow> (string \<rightharpoonup> entry) \<Rightarrow> (string \<rightharpoonup> entry) \<Rightarrow> bool" where
  "only_creates S f f' =
     (\<forall>q. (f q \<noteq> None \<longrightarrow> f' q = f q) \<and> (f q = None \<longrightarrow> f' q \<noteq> None \<longrightarrow> q \<in> S \<and> f' q = Some Dir))"

subsection \<open>Concrete runs\<close>

text \<open>
  A Linux host with four CPUs, the script in \<^verbatim>\<open>/proj\<close>, and tools that answer every
  command with return code 0; variations of it; file systems and argument namespaces.
\<close>

definition proj :: path where
  "proj = Child (Anchor ''/'') ''proj''"

definition env_ok :: env where
  "env_ok =
     \<lparr>system_name = ''Linux'', environ = Map.empty, cpu_count = 4,
      script_dir = proj, os_sep = ''/'',
      spawn = (\<lambda>t c d. Completed 0 ''cmake version 3.28.1'')\<rparr>"

definition env_eight :: env where
  "env_eight = env_ok\<lparr>cpu_count := 8\<rparr>"

definition env_mac :: env where
  "env_mac = env_ok\<lparr>system_name := ''Darwin''\<rparr>"

definition env_no_conan :: env where
  "env_no_conan = env_ok\<lparr>spawn := (\<lambda>t c d. NotFound)\<rparr>"

definition env_failing :: env where
  "env_failing = env_ok\<lparr>spawn := (\<lambda>t c d. Completed 1 [])\<rparr>"

definition env_ndk :: env where
  "env_ndk = env_ok\<lparr>environ := [''ANDROID_NDK_HOME'' \<mapsto> ''/opt/ndk'']\<rparr>"

definition fs_proj :: "string \<rightharpoonup> entry" where
  "fs_proj = [''/proj'' \<mapsto> Dir]"

definition fs_ndk_dir :: "string \<rightharpoonup> entry" where
  "fs_ndk_dir = [''/proj'' \<mapsto> Dir, ''/opt/ndk'' \<mapsto> Dir]"

definition fs_ndk_file :: "string \<rightharpoonup> entry" where
  "fs_ndk_file = [''/proj'' \<mapsto> Dir, ''/opt/ndk'' \<mapsto> File]"

definition fs_built :: "string \<rightharpoonup> entry" where
  "fs_built = [''/proj'' \<mapsto> Dir, ''/proj/build'' \<mapsto> Dir, ''/proj/build/old.o'' \<mapsto> File]"

definition args_default :: args where
  "args_default =
     \<lparr>args_platform = None, args_arch = None, args_build_type = ''Release'',
      args_verbose = False, args_clean = False\<rparr>"

definition args_linux :: args where
  "args_linux =
     \<lparr>args_platform = Some ''linux'', args_arch = Some ''x86_64'', args_build_type = ''Release'',
      args_verbose = False, args_clean = False\<rparr>"

definition args_cleaning :: args where
  "args_cleaning = args_default\<lparr>args_clean := True\<rparr>"

definition w_proj :: world where
  "w_proj = \<lparr>fs = fs_proj, trace = []\<rparr>"

definition w_ndk_dir :: world where
  "w_ndk_dir = \<lparr>fs = fs_ndk_dir, trace = []\<rparr>"

definition w_ndk_file :: world where
  "w_ndk_file = \<lparr>fs = fs_ndk_file, trace = []\<rparr>"

section \<open>Lemmas\<close>

lemma commands_append: "commands (xs @ ys) = commands xs @ commands ys"
  by (induction xs rule: commands.induct) simp_all

lemma run_checked_not_found:
  "spawn env (trace w) c cwd = NotFound \<Longrightarrow>
   run_checked env c cwd err w
     = (Inl FileNotFoundError, w\<lparr>trace := trace w @ [Spawn c cwd NotFound]\<rparr>)"
  by (simp add: run_checked_def subprocess_run_def)

lemma run_checked_zero:
  "spawn env (trace w) c cwd = Completed 0 out \<Longrightarrow>
   run_checked env c cwd err w
     = (Inr True, w\<lparr>trace := trace w @ [Spawn c cwd (Completed 0 out)]\<rparr>)"
  by (simp add: run_checked_def subprocess_run_def Let_def)

lemma run_checked_nonzero:
  "spawn env (trace w) c cwd = Completed rc out \<Longrightarrow> rc \<noteq> 0 \<Longrightarrow>
   run_checked env c cwd err w
     = (Inr False, w\<lparr>trace := trace w @ [Spawn c cwd (Completed rc out), Print err]\<rparr>)"
  by (simp add: run_checked_def subprocess_run_def print_def Let_def)

lemma run_all_three:
  "and_then (run_checked env c1 cwd e1 w)
     (\<lambda>w. and_then (run_checked env c2 cwd e2 w) (\<lambda>w. run_checked env c3 cwd e3 w))
   = run_all env cwd [(c1, e1), (c2, e2), (c3, e3)] w"
  by (simp add: and_then_def split: prod.splits sum.splits bool.splits)

lemma run_all_spec:
  "\<exists>new. snd (run_all env cwd steps w) = w\<lparr>trace := trace w @ new\<rparr>
         \<and> run_spec cwd steps new (fst (run_all env cwd steps w))"
proof (induction steps arbitrary: w)
  case Nil
  show ?case by (auto intro!: exI [of _ "[]"] run_spec.finished)
next
  case (Cons step steps)
  obtain c err where step: "step = (c, err)" by (cases step)
  show ?case
  proof (cases "spawn env (trace w) c cwd")
    case NotFound
    then show ?thesis
      by (auto simp: step and_then_def run_checked_not_found intro: run_spec.not_found)
  next
    case (Completed rc out)
    show ?thesis
    proof (cases "rc = 0")
      case True
      let ?w = "w\<lparr>trace := trace w @ [Spawn c cwd (Completed 0 out)]\<rparr>"
      from Cons.IH [of ?w] obtain new where
        new: "snd (run_all env cwd steps ?w) = ?w\<lparr>trace := trace ?w @ new\<rparr>"
          "run_spec cwd steps new (fst (run_all env cwd steps ?w))"
        by blast
      have "run_all env cwd (step # steps) w = run_all env cwd steps ?w"
        using Completed True by (simp add: step and_then_def run_checked_zero)
      with new show ?thesis
        by (auto simp: step intro!: exI [of _ "Spawn c cwd (Completed 0 out) # new"]
            run_spec.went_on)
    next
      case False
      with Completed show ?thesis
        by (auto simp: step and_then_def run_checked_nonzero intro: run_spec.stopped)
    qed
  qed
qed

lemma run_spec_commands_prefix:
  "run_spec cwd steps new r \<Longrightarrow> prefix (commands new) (map fst steps)"
  by (induction rule: run_spec.induct) simp_all

lemma run_spec_True_iff:
  "run_spec cwd steps new r \<Longrightarrow>
   (r = Inr True) = (length (commands new) = length steps \<and> (\<forall>e\<in>set new. \<not> failed e))"
  by (induction rule: run_spec.induct) simp_all

lemma run_spec_True:
  "run_spec cwd steps new r \<Longrightarrow> r = Inr True \<Longrightarrow> commands new = map fst steps"
  by (induction rule: run_spec.induct) simp_all

lemma run_spec_False:
  "run_spec cwd steps new r \<Longrightarrow> r = Inr False \<Longrightarrow>
   new \<noteq> [] \<and> (\<exists>m. m \<in> snd ` set steps \<and> last new = Print m)
   \<and> (\<exists>c d rc out. Spawn c d (Completed rc out) \<in> set new \<and> rc \<noteq> 0)"
proof (induction rule: run_spec.induct)
  case finished
  then show ?case by simp
next
  case (went_on steps new r c err out)
  then obtain m c' d' rc' out' where
    "new \<noteq> []" "m \<in> snd ` set steps" "last new = Print m"
    "Spawn c' d' (Completed rc' out') \<in> set new" "rc' \<noteq> 0"
    by blast
  then show ?case by auto
next
  case (stopped rc c err steps out)
  then show ?case by force
next
  case (not_found c err steps)
  then show ?case by simp
qed

lemma run_spec_halts:
  "run_spec cwd steps new r \<Longrightarrow> new = pre @ Spawn c d (Completed rc out) # post \<Longrightarrow> rc \<noteq> 0 \<Longrightarrow>
   commands post = [] \<and> r = Inr False"
proof (induction arbitrary: pre rule: run_spec.induct)
  case finished
  then show ?case by simp
next
  case (went_on steps new r c' err out')
  then show ?case by (cases pre) auto
next
  case (stopped rc' c' err steps out')
  then show ?case by (cases pre) (auto simp: Cons_eq_append_conv)
next
  case (not_found c' err steps)
  then show ?case by (cases pre) auto
qed

lemma build_steps_errors:
  "(c, m) \<in> set (build_steps target arch build_type verbose cd jobs ndk_home sdp_home) \<Longrightarrow>
   prefix ''Error: '' m"
  by (auto simp: build_steps_def split: if_splits option.splits)

lemma build_steps_length:
  "build_steps target arch build_type verbose cd jobs ndk_home sdp_home \<noteq> [] \<Longrightarrow>
   length (build_steps target arch build_type verbose cd jobs ndk_home sdp_home) = 3"
  by (auto simp: build_steps_def split: if_splits option.splits)

lemma run_spec_build_facts:
  assumes run: "run_spec cwd steps new r"
    and nonempty: "steps \<noteq> []"
    and errors: "\<And>c m. (c, m) \<in> set steps \<Longrightarrow> prefix ''Error: '' m"
  shows "build_facts steps (Print l # new) r"
proof -
  have pre: "prefix (commands (Print l # new)) (map fst steps)"
    using run_spec_commands_prefix [OF run] by simp
  have iff: "(r = Inr True)
      = (steps \<noteq> [] \<and> length (commands (Print l # new)) = length steps
         \<and> (\<forall>e\<in>set (Print l # new). \<not> failed e))"
    using run_spec_True_iff [OF run] nonempty by simp
  have fails: "new \<noteq> [] \<and> (\<exists>m. last (Print l # new) = Print m \<and> prefix ''Error: '' m)
      \<and> (\<exists>c d rc out. Spawn c d (Completed rc out) \<in> set (Print l # new) \<and> rc \<noteq> 0)"
    if "r = Inr False"
  proof -
    from run_spec_False [OF run that] obtain m c d rc out where
      *: "new \<noteq> []" "m \<in> snd ` set steps" "last new = Print m"
         "Spawn c d (Completed rc out) \<in> set new" "rc \<noteq> 0"
      by blast
    from *(2) errors have "prefix ''Error: '' m" by auto
    with * show ?thesis by auto
  qed
  have halts: "commands post = [] \<and> r = Inr False"
    if "Print l # new = pre @ Spawn c d (Completed rc out) # post" "rc \<noteq> 0"
    for pre c d rc out post
  proof (cases pre)
    case Nil
    with that show ?thesis by simp
  next
    case (Cons e pre')
    with that have "new = pre' @ Spawn c d (Completed rc out) # post" by simp
    from run_spec_halts [OF run this that(2)] show ?thesis .
  qed
  show ?thesis
    unfolding build_facts_def using pre iff fails halts by blast
qed

lemma build_facts_raised:
  "build_facts steps [Print l] (Inl e)"
  by (auto simp: build_facts_def Cons_eq_append_conv)

lemma build_facts_unsupported:
  "prefix ''Error: '' m \<Longrightarrow> build_facts [] [Print m] (Inr False)"
  "prefix ''Error: '' m \<Longrightarrow> build_facts [] [Print l, Print m] (Inr False)"
  by (auto simp: build_facts_def Cons_eq_append_conv)

lemma only_creates_refl: "only_creates S f f"
  by (simp add: only_creates_def)

lemma only_creates_trans:
  "only_creates S f f' \<Longrightarrow> only_creates T f' f'' \<Longrightarrow> only_creates (S \<union> T) f f''"
  unfolding only_creates_def by (metis UnCI)

lemma only_creates_mono: "only_creates S f f' \<Longrightarrow> S \<subseteq> T \<Longrightarrow> only_creates T f f'"
  unfolding only_creates_def by blast

lemma mkdir_exist_ok_world:
  "trace (snd (mkdir_exist_ok env p w)) = trace w
   \<and> only_creates {path_str (os_sep env) p} (fs w) (fs (snd (mkdir_exist_ok env p w)))"
  by (auto simp: mkdir_exist_ok_def only_creates_def Let_def split: option.splits entry.splits)

lemma run_all_fs: "fs (snd (run_all env cwd steps w)) = fs w"
  using run_all_spec [of env cwd steps w] by auto

lemma run_all_facts:
  assumes w1: "trace w1 = trace w @ [Print l]"
    and nonempty: "steps \<noteq> []"
    and errors: "\<And>c m. (c, m) \<in> set steps \<Longrightarrow> prefix ''Error: '' m"
  shows "\<exists>new. trace (snd (run_all env cwd steps w1)) = trace w @ new
           \<and> build_facts steps new (fst (run_all env cwd steps w1))"
proof -
  from run_all_spec [of env cwd steps w1] obtain new where
    new: "snd (run_all env cwd steps w1) = w1\<lparr>trace := trace w1 @ new\<rparr>"
      "run_spec cwd steps new (fst (run_all env cwd steps w1))"
    by blast
  have "build_facts steps (Print l # new) (fst (run_all env cwd steps w1))"
    by (rule run_spec_build_facts [OF new(2) nonempty errors])
  moreover have "trace (snd (run_all env cwd steps w1)) = trace w @ Print l # new"
    using new(1) w1 by simp
  ultimately show ?thesis by blast
qed

lemma build_for_windows_run_all:
  "build_for_windows env pr cdir bd bt arch v w
   = run_all env (Some (path_str (os_sep env) pr))
       (build_steps ''windows'' (or_default arch ''x86_64'') bt v (path_str (os_sep env) cdir)
          jobs ndk sdp)
       (print (''Building Windows version... '' @ path_str (os_sep env) cdir) w)"
  by (simp add: build_for_windows_def Let_def run_all_three build_steps_def)

lemma build_for_linux_run_all:
  "build_for_linux env pr cdir bd bt arch v w
   = run_all env (Some (path_str (os_sep env) pr))
       (build_steps ''linux'' (or_default arch ''x86_64'') bt v (path_str (os_sep env) cdir)
          (cpu_count env) ndk sdp)
       (print ''Building Linux version...'' w)"
  by (simp add: build_for_linux_def Let_def run_all_three build_steps_def)

lemma build_for_windows_facts:
  "\<exists>new. trace (snd (build_for_windows env pr cdir bd bt arch v w)) = trace w @ new
     \<and> build_facts
          (build_steps ''windows'' (or_default arch ''x86_64'') bt v (path_str (os_sep env) cdir)
             jobs ndk sdp)
          new (fst (build_for_windows env pr cdir bd bt arch v w))"
  unfolding build_for_windows_run_all [where jobs = jobs and ndk = ndk and sdp = sdp]
  by (rule run_all_facts) (auto simp: print_def build_steps_def)

lemma build_for_linux_facts:
  "\<exists>new. trace (snd (build_for_linux env pr cdir bd bt arch v w)) = trace w @ new
     \<and> build_facts
          (build_steps ''linux'' (or_default arch ''x86_64'') bt v (path_str (os_sep env) cdir)
             (cpu_count env) ndk sdp)
          new (fst (build_for_linux env pr cdir bd bt arch v w))"
  unfolding build_for_linux_run_all [where ndk = ndk and sdp = sdp]
  by (rule run_all_facts) (auto simp: print_def build_steps_def)

lemma build_for_windows_fs: "fs (snd (build_for_windows env pr cdir bd bt arch v w)) = fs w"
  by (simp add: build_for_windows_run_all [where jobs = 0 and ndk = None and sdp = None]
      run_all_fs print_def)

lemma build_for_linux_fs: "fs (snd (build_for_linux env pr cdir bd bt arch v w)) = fs w"
  by (simp add: build_for_linux_run_all [where ndk = None and sdp = None] run_all_fs print_def)

lemma then_do_Inl: "then_do (Inl e, w) f = (Inl e, w)"
  by (simp add: then_do_def)

lemma then_do_Inr: "then_do (Inr x, w) f = f x w"
  by (simp add: then_do_def)

lemma mkdir_exist_ok_result:
  "mkdir_exist_ok env p w = (Inl FileNotFoundError, w)
   \<or> mkdir_exist_ok env p w = (Inl NotADirectoryError, w)
   \<or> mkdir_exist_ok env p w = (Inl FileExistsError, w)
   \<or> mkdir_exist_ok env p w = (Inr (), w)
   \<or> (fs w (path_str (os_sep env) p) = None
       \<and> mkdir_exist_ok env p w = (Inr (), w\<lparr>fs := (fs w)(path_str (os_sep env) p \<mapsto> Dir)\<rparr>))"
  by (simp add: mkdir_exist_ok_def Let_def split: option.splits entry.splits)

lemma mkdir_exist_ok_cases:
  obtains (raised) e where "mkdir_exist_ok env p w = (Inl e, w)"
  | (made) f where "mkdir_exist_ok env p w = (Inr (), w\<lparr>fs := f\<rparr>)"
      "only_creates {path_str (os_sep env) p} (fs w) f"
proof -
  consider "mkdir_exist_ok env p w = (Inl FileNotFoundError, w)"
    | "mkdir_exist_ok env p w = (Inl NotADirectoryError, w)"
    | "mkdir_exist_ok env p w = (Inl FileExistsError, w)"
    | "mkdir_exist_ok env p w = (Inr (), w)"
    | "fs w (path_str (os_sep env) p) = None"
      "mkdir_exist_ok env p w = (Inr (), w\<lparr>fs := (fs w)(path_str (os_sep env) p \<mapsto> Dir)\<rparr>)"
    using mkdir_exist_ok_result [of env p w] by argo
  then show thesis
  proof cases
    case 1 then show thesis by (rule raised)
  next
    case 2 then show thesis by (rule raised)
  next
    case 3 then show thesis by (rule raised)
  next
    case 4
    then show thesis by (intro made [of "fs w"]) (simp_all add: only_creates_refl)
  next
    case 5
    then show thesis
      by (intro made [of "(fs w)(path_str (os_sep env) p \<mapsto> Dir)"])
        (simp_all add: only_creates_def)
  qed
qed

lemma build_for_android_facts:
  "\<exists>new. trace (snd (build_for_android env pr cdir bd bt arch v w)) = trace w @ new
     \<and> build_facts
          (build_steps ''android'' (or_default arch ''armv8'') bt v (path_str (os_sep env) cdir)
             jobs (environ env ''ANDROID_NDK_HOME'') sdp)
          new (fst (build_for_android env pr cdir bd bt arch v w))"
proof -
  let ?w1 = "print ''Building Android version...'' w"
  let ?steps = "build_steps ''android'' (or_default arch ''armv8'') bt v
      (path_str (os_sep env) cdir) jobs (environ env ''ANDROID_NDK_HOME'') sdp"
  show ?thesis
  proof (cases rule: mkdir_exist_ok_cases [of env "Child bd ''android''" ?w1])
    case (raised e)
    then show ?thesis
      by (auto simp: build_for_android_def Let_def then_do_Inl print_def
          intro!: exI [of _ "[Print ''Building Android version...'']"] build_facts_raised)
  next
    case (made f)
    show ?thesis
    proof (cases "arch_to_abi (or_default arch ''armv8'')")
      case None
      then have "?steps = []" by (simp add: build_steps_def)
      then show ?thesis
        using made None
        by (auto simp: build_for_android_def Let_def then_do_Inr print_def
            intro!: exI [of _ "[Print ''Building Android version...'',
               Print (''Error: Unsupported Android architecture: '' @ or_default arch ''armv8'')]"]
             build_facts_unsupported)
    next
      case (Some abi)
      have eq: "build_for_android env pr cdir bd bt arch v w
          = run_all env (Some (path_str (os_sep env) pr)) ?steps (?w1\<lparr>fs := f\<rparr>)"
        using made Some
        by (simp add: build_for_android_def Let_def then_do_Inr run_all_three build_steps_def)
      show ?thesis
        unfolding eq
        by (rule run_all_facts) (use Some in \<open>auto simp: print_def build_steps_def\<close>)
    qed
  qed
qed

lemma build_for_qnx_facts:
  "\<exists>new. trace (snd (build_for_qnx env pr cdir bd bt arch v w)) = trace w @ new
     \<and> build_facts
          (build_steps ''qnx'' (or_default arch ''armv7'') bt v (path_str (os_sep env) cdir)
             jobs ndk (environ env ''QNX_SDP_HOME''))
          new (fst (build_for_qnx env pr cdir bd bt arch v w))"
proof -
  let ?w1 = "print qnx_building_line w"
  let ?steps = "build_steps ''qnx'' (or_default arch ''armv7'') bt v
      (path_str (os_sep env) cdir) jobs ndk (environ env ''QNX_SDP_HOME'')"
  show ?thesis
  proof (cases rule: mkdir_exist_ok_cases [of env "Child bd ''qnx''" ?w1])
    case (raised e)
    then show ?thesis
      by (auto simp: build_for_qnx_def Let_def then_do_Inl print_def
          intro!: exI [of _ "[Print qnx_building_line]"] build_facts_raised)
  next
    case (made f)
    have eq: "build_for_qnx env pr cdir bd bt arch v w
        = run_all env (Some (path_str (os_sep env) pr)) ?steps (?w1\<lparr>fs := f\<rparr>)"
      using made
      by (simp add: build_for_qnx_def Let_def then_do_Inr run_all_three build_steps_def)
    show ?thesis
      unfolding eq by (rule run_all_facts) (auto simp: print_def build_steps_def)
  qed
qed

lemma and_then_fs:
  assumes "fs (snd m) = f" and "\<And>w. fs w = f \<Longrightarrow> fs (snd (g w)) = f"
  shows "fs (snd (and_then m g)) = f"
  using assms by (cases m) (auto simp: and_then_def split: sum.splits bool.splits)

lemma run_checked_fs: "fs (snd (run_checked env c cwd err w)) = fs w"
  by (simp add: run_checked_def subprocess_run_def print_def Let_def split: proc_result.splits)

lemma three_steps_fs:
  "fs (snd (and_then (run_checked env c1 cwd e1 w)
              (\<lambda>w. and_then (run_checked env c2 cwd e2 w) (\<lambda>w. run_checked env c3 cwd e3 w))))
   = fs w"
  by (simp only: run_all_three run_all_fs)

lemma build_for_android_fs:
  "only_creates {path_str (os_sep env) (Child bd ''android'')} (fs w)
     (fs (snd (build_for_android env pr cdir bd bt arch v w)))"
proof (cases rule: mkdir_exist_ok_cases
    [of env "Child bd ''android''" "print ''Building Android version...'' w"])
  case (raised e)
  then show ?thesis
    by (simp add: build_for_android_def Let_def then_do_Inl print_def only_creates_refl)
next
  case (made f)
  then show ?thesis
    by (simp add: build_for_android_def Let_def then_do_Inr print_def three_steps_fs
        split: option.splits)
qed

lemma build_for_qnx_fs:
  "only_creates {path_str (os_sep env) (Child bd ''qnx'')} (fs w)
     (fs (snd (build_for_qnx env pr cdir bd bt arch v w)))"
proof (cases rule: mkdir_exist_ok_cases [of env "Child bd ''qnx''" "print qnx_building_line w"])
  case (raised e)
  then show ?thesis
    by (simp add: build_for_qnx_def Let_def then_do_Inl print_def only_creates_refl)
next
  case (made f)
  then show ?thesis
    by (simp add: build_for_qnx_def Let_def then_do_Inr print_def three_steps_fs)
qed

lemma or_default_truthy: "truthy arch \<Longrightarrow> or_default arch d = fmt_opt arch"
  by (auto simp: truthy_def or_default_def fmt_opt_def split: option.splits)

lemma build_steps_other:
  "target \<notin> set platform_choices \<Longrightarrow>
   build_steps target arch build_type verbose cd jobs ndk_home sdp_home = []"
  by (simp add: build_steps_def platform_choices_def)

lemma platform_build_facts:
  assumes arch: "tp \<in> set platform_choices \<Longrightarrow> truthy arch"
  shows "\<exists>new. trace (snd (platform_build env tp pr cdir bd bt arch v w)) = trace w @ new
     \<and> build_facts
          (build_steps tp (fmt_opt arch) bt v (path_str (os_sep env) cdir) (cpu_count env)
             (environ env ''ANDROID_NDK_HOME'') (environ env ''QNX_SDP_HOME''))
          new (fst (platform_build env tp pr cdir bd bt arch v w))"
proof (cases "tp \<in> set platform_choices")
  case True
  with arch have t: "truthy arch" by simp
  from True consider "tp = ''windows''" | "tp = ''linux''" | "tp = ''android''" | "tp = ''qnx''"
    by (auto simp: platform_choices_def)
  then show ?thesis
  proof cases
    case 1
    then show ?thesis
      using build_for_windows_facts [of env pr cdir bd bt arch v w] or_default_truthy [OF t]
      by (simp add: platform_build_def)
  next
    case 2
    then show ?thesis
      using build_for_linux_facts [of env pr cdir bd bt arch v w] or_default_truthy [OF t]
      by (simp add: platform_build_def)
  next
    case 3
    then show ?thesis
      using build_for_android_facts [of env pr cdir bd bt arch v w] or_default_truthy [OF t]
      by (simp add: platform_build_def)
  next
    case 4
    then show ?thesis
      using build_for_qnx_facts [of env pr cdir bd bt arch v w] or_default_truthy [OF t]
      by (simp add: platform_build_def)
  qed
next
  case False
  then have "platform_build env tp pr cdir bd bt arch v w
      = (Inr False, print (''Error: Unsupported platform: '' @ tp) w)"
    by (auto simp: platform_build_def platform_choices_def)
  with False show ?thesis
    by (auto simp: build_steps_other print_def
        intro!: exI [of _ "[Print (''Error: Unsupported platform: '' @ tp)]"]
          build_facts_unsupported)
qed

lemma platform_build_fs:
  "only_creates
     {path_str (os_sep env) (Child bd ''android''), path_str (os_sep env) (Child bd ''qnx'')}
     (fs w) (fs (snd (platform_build env tp pr cdir bd bt arch v w)))"
proof -
  let ?S = "{path_str (os_sep env) (Child bd ''android''),
             path_str (os_sep env) (Child bd ''qnx'')}"
  have android: "only_creates ?S (fs w) (fs (snd (build_for_android env pr cdir bd bt arch v w)))"
    by (rule only_creates_mono [OF build_for_android_fs]) simp
  have qnx: "only_creates ?S (fs w) (fs (snd (build_for_qnx env pr cdir bd bt arch v w)))"
    by (rule only_creates_mono [OF build_for_qnx_fs]) simp
  show ?thesis
    using android qnx
    by (simp add: platform_build_def build_for_windows_fs build_for_linux_fs print_def
        only_creates_refl)
qed

lemma commands_prints [simp]: "commands (map Print ls) = []"
  by (induction ls) simp_all

lemma failed_prints [simp]: "e \<in> set (map Print ls) \<Longrightarrow> \<not> failed e"
  by auto

lemma build_facts_Print:
  assumes "build_facts steps new r"
  shows "build_facts steps (Print l # new) r"
proof -
  have halts: "commands post = [] \<and> r = Inr False"
    if "Print l # new = pre @ Spawn c d (Completed rc out) # post" "rc \<noteq> 0"
    for pre c d rc out post
  proof (cases pre)
    case Nil
    with that show ?thesis by simp
  next
    case (Cons e pre')
    with that have "new = pre' @ Spawn c d (Completed rc out) # post" by simp
    with assms that(2) show ?thesis unfolding build_facts_def by blast
  qed
  have rest: "prefix (commands (Print l # new)) (map fst steps)
      \<and> ((r = Inr True) = (steps \<noteq> [] \<and> length (commands (Print l # new)) = length steps
            \<and> (\<forall>e\<in>set (Print l # new). \<not> failed e)))
      \<and> (r = Inr False \<longrightarrow>
            Print l # new \<noteq> [] \<and> (\<exists>m. last (Print l # new) = Print m \<and> prefix ''Error: '' m)
            \<and> (steps = [] \<or> (\<exists>c d rc out. Spawn c d (Completed rc out) \<in> set (Print l # new)
                  \<and> rc \<noteq> 0)))"
    using assms unfolding build_facts_def by auto
  show ?thesis
    unfolding build_facts_def using rest halts by blast
qed

lemma build_facts_prints:
  "build_facts steps new r \<Longrightarrow> build_facts steps (map Print ls @ new) r"
  by (induction ls) (simp_all add: build_facts_Print)

lemma prints_no_spawn: "map Print ls \<noteq> pre @ Spawn c d r # post"
proof
  assume "map Print ls = pre @ Spawn c d r # post"
  then have "Spawn c d r \<in> set (map Print ls)" by simp
  then show False by auto
qed

lemma build_facts_success:
  assumes "build_facts steps new (Inr True)"
  shows "build_facts steps (new @ map Print ls) (Inr True)"
proof -
  from assms have ok: "steps \<noteq> []" "length (commands new) = length steps"
    "\<forall>e\<in>set new. \<not> failed e" "prefix (commands new) (map fst steps)"
    unfolding build_facts_def by auto
  have halts: "\<forall>pre c d rc out post.
      new @ map Print ls = pre @ Spawn c d (Completed rc out) # post \<and> rc \<noteq> 0 \<longrightarrow>
      commands post = [] \<and> (Inr True :: exn + bool) = Inr False"
  proof (intro allI impI, elim conjE)
    fix pre c d rc out post
    assume eq: "new @ map Print ls = pre @ Spawn c d (Completed rc out) # post" and rc: "rc \<noteq> 0"
    have "Spawn c d (Completed rc out) \<in> set (new @ map Print ls)"
      unfolding eq by simp
    then have "Spawn c d (Completed rc out) \<in> set new" by auto
    with ok(3) rc have False by force
    then show "commands post = [] \<and> (Inr True :: exn + bool) = Inr False" ..
  qed
  have rest: "prefix (commands (new @ map Print ls)) (map fst steps)
      \<and> (steps \<noteq> [] \<and> length (commands (new @ map Print ls)) = length steps
           \<and> (\<forall>e\<in>set (new @ map Print ls). \<not> failed e))"
    using ok by (auto simp: commands_append)
  show ?thesis
    unfolding build_facts_def using rest halts by simp
qed

lemma build_facts_raised_prints: "build_facts steps (map Print ls) (Inl e)"
  unfolding build_facts_def by (simp add: prints_no_spawn)

lemma print_all_world: "print_all ls w = w\<lparr>trace := trace w @ map Print ls\<rparr>"
  unfolding print_all_def by (induction ls arbitrary: w) (simp_all add: print_def)

lemma rmtree_result:
  "rmtree env p w = (Inl FileNotFoundError, w)
   \<or> rmtree env p w = (Inl NotADirectoryError, w)
   \<or> rmtree env p w
       = (Inr (), w\<lparr>fs := (\<lambda>q. if q = path_str (os_sep env) p
                                  \<or> prefix (path_str (os_sep env) p @ os_sep env) q
                               then None else fs w q)\<rparr>)"
  by (simp add: rmtree_def Let_def split: option.splits entry.splits)

lemma rmtree_cases:
  obtains (raised) e where "rmtree env p w = (Inl e, w)"
  | (removed) f where "rmtree env p w = (Inr (), w\<lparr>fs := f\<rparr>)"
proof -
  consider "rmtree env p w = (Inl FileNotFoundError, w)"
    | "rmtree env p w = (Inl NotADirectoryError, w)"
    | "rmtree env p w
       = (Inr (), w\<lparr>fs := (\<lambda>q. if q = path_str (os_sep env) p
                                  \<or> prefix (path_str (os_sep env) p @ os_sep env) q
                               then None else fs w q)\<rparr>)"
    using rmtree_result [of env p w] by argo
  then show thesis
  proof cases
    case 1 then show thesis by (rule raised)
  next
    case 2 then show thesis by (rule raised)
  next
    case 3 then show thesis by (rule removed)
  qed
qed

lemma clean_old_build_cases:
  obtains (raised) e ls f where
    "clean_old_build env bd cdir w = (Inl e, w\<lparr>fs := f, trace := trace w @ map Print ls\<rparr>)"
  | (cleaned) ls f where
    "clean_old_build env bd cdir w = (Inr (), w\<lparr>fs := f, trace := trace w @ map Print ls\<rparr>)"
proof -
  have "\<exists>r ls f. clean_old_build env bd cdir w = (r, w\<lparr>fs := f, trace := trace w @ map Print ls\<rparr>)"
  proof -
    have first: "\<exists>r ls f.
        (if path_exists w (path_str (os_sep env) bd)
         then then_do (rmtree env bd w) (\<lambda>_ w'. (Inr (), print ''Cleaned old build directory'' w'))
         else (Inr (), w)) = (r, w\<lparr>fs := f, trace := trace w @ map Print ls\<rparr>)"
    proof (cases "path_exists w (path_str (os_sep env) bd)")
      case False
      then show ?thesis by (auto intro!: exI [of _ "[]"] exI [of _ "fs w"])
    next
      case True
      show ?thesis
      proof (cases rule: rmtree_cases [of env bd w])
        case (raised e)
        with True show ?thesis
          by (auto simp: then_do_Inl intro!: exI [of _ "[]"] exI [of _ "fs w"])
      next
        case (removed f)
        with True show ?thesis
          by (auto simp: then_do_Inr print_def
              intro!: exI [of _ "[''Cleaned old build directory'']"] exI [of _ f])
      qed
    qed
    then obtain r ls f where 1:
      "(if path_exists w (path_str (os_sep env) bd)
         then then_do (rmtree env bd w) (\<lambda>_ w'. (Inr (), print ''Cleaned old build directory'' w'))
         else (Inr (), w)) = (r, w\<lparr>fs := f, trace := trace w @ map Print ls\<rparr>)"
      by blast
    let ?w' = "w\<lparr>fs := f, trace := trace w @ map Print ls\<rparr>"
    show ?thesis
    proof (cases r)
      case (Inl e)
      with 1 show ?thesis by (auto simp: clean_old_build_def then_do_Inl)
    next
      case (Inr u)
      have eq: "clean_old_build env bd cdir w =
          (if path_exists ?w' (path_str (os_sep env) cdir)
           then then_do (rmtree env cdir ?w')
                  (\<lambda>_ w''. (Inr (), print ''Cleaned old Conan directory'' w''))
           else (Inr (), ?w'))"
        using 1 Inr by (simp add: clean_old_build_def then_do_Inr)
      show ?thesis
      proof (cases "path_exists ?w' (path_str (os_sep env) cdir)")
        case False
        with eq show ?thesis by auto
      next
        case True
        show ?thesis
        proof (cases rule: rmtree_cases [of env cdir ?w'])
          case (raised e)
          with True eq show ?thesis by (auto simp: then_do_Inl)
        next
          case (removed g)
          with True eq show ?thesis
            by (auto simp: then_do_Inr print_def
                intro!: exI [of _ "ls @ [''Cleaned old Conan directory'']"] exI [of _ g])
        qed
      qed
    qed
  qed
  then obtain r ls f where
    *: "clean_old_build env bd cdir w = (r, w\<lparr>fs := f, trace := trace w @ map Print ls\<rparr>)"
    by blast
  show thesis
  proof (cases r)
    case (Inl e)
    with * show thesis by (auto intro: raised)
  next
    case (Inr u)
    with * show thesis by (auto intro: cleaned)
  qed
qed

lemma select_arch_truthy: "tp \<in> set platform_choices \<Longrightarrow> truthy (select_arch tp arch0)"
  by (auto simp: select_arch_def platform_choices_def truthy_def)

lemma build_project_split:
  fixes env tp0 arch0 bt v
  defines "tp \<equiv> select_platform env tp0"
  defines "bd \<equiv> Child (script_dir env) ''build''"
  defines "cdir \<equiv> Child (script_dir env) ''conan''"
  obtains (raised) e ls w' where
    "build_project env tp0 arch0 clean v bt w = (Inl e, w')"
    "trace w' = trace w @ map Print ls"
    "\<not> clean \<Longrightarrow> only_creates {path_str (os_sep env) bd, path_str (os_sep env) cdir} (fs w) (fs w')"
  | (built) ls w4 where
    "trace w4 = trace w @ map Print ls"
    "build_project env tp0 arch0 clean v bt w
     = then_do (platform_build env tp (script_dir env) cdir bd bt (select_arch tp arch0) v w4)
         (\<lambda>success w5. (Inr success, if success then print_all success_lines w5 else w5))"
    "\<not> clean \<Longrightarrow> only_creates {path_str (os_sep env) bd, path_str (os_sep env) cdir} (fs w) (fs w4)"
proof -
  note R = that(1) and B = that(2)
  let ?S = "{path_str (os_sep env) bd, path_str (os_sep env) cdir}"
  let ?banner = "banner tp (select_arch tp arch0) bt (path_str (os_sep env) bd)
      (path_str (os_sep env) cdir)"
  let ?w1 = "w\<lparr>trace := trace w @ map Print ?banner\<rparr>"
  let ?rest = "\<lambda>w2. then_do (mkdir_exist_ok env bd w2)
           (\<lambda>_ w3. then_do (mkdir_exist_ok env cdir w3)
           (\<lambda>_ w4. then_do (platform_build env tp (script_dir env) cdir bd bt
                               (select_arch tp arch0) v w4)
           (\<lambda>success w5.
              (Inr success, if success then print_all success_lines w5 else w5))))"
  have bp: "build_project env tp0 arch0 clean v bt w
      = then_do (if clean then clean_old_build env bd cdir ?w1 else (Inr (), ?w1)) (\<lambda>_. ?rest)"
    by (simp add: build_project_def Let_def print_all_world tp_def bd_def cdir_def)
  have after: thesis
    if w2: "trace w2 = trace w @ map Print ls"
      "\<not> clean \<Longrightarrow> only_creates ?S (fs w) (fs w2)"
      and eq: "build_project env tp0 arch0 clean v bt w = ?rest w2"
    for w2 ls
  proof (cases rule: mkdir_exist_ok_cases [of env bd w2])
    case (raised e)
    with eq have "build_project env tp0 arch0 clean v bt w = (Inl e, w2)"
      by (simp add: then_do_Inl)
    with w2 show thesis by (intro R [of e w2 ls]) auto
  next
    case (made f)
    let ?w3 = "w2\<lparr>fs := f\<rparr>"
    have f: "\<not> clean \<Longrightarrow> only_creates ?S (fs w) (fs ?w3)"
      using only_creates_trans [OF w2(2) made(2)] by (auto elim: only_creates_mono)
    show thesis
    proof (cases rule: mkdir_exist_ok_cases [of env cdir ?w3])
      case (raised e)
      with eq made have "build_project env tp0 arch0 clean v bt w = (Inl e, ?w3)"
        by (simp add: then_do_Inl then_do_Inr)
      with w2 f show thesis by (intro R [of e ?w3 ls]) auto
    next
      case made2: (made g)
      let ?w4 = "?w3\<lparr>fs := g\<rparr>"
      have g: "\<not> clean \<Longrightarrow> only_creates ?S (fs w) (fs ?w4)"
        using only_creates_trans [OF f made2(2)] by (auto elim: only_creates_mono)
      from eq made made2 have "build_project env tp0 arch0 clean v bt w
          = then_do (platform_build env tp (script_dir env) cdir bd bt (select_arch tp arch0) v ?w4)
              (\<lambda>success w5. (Inr success, if success then print_all success_lines w5 else w5))"
        by (simp add: then_do_Inr)
      with w2 g show thesis by (intro B [of ?w4 ls]) auto
    qed
  qed
  show thesis
  proof (cases clean)
    case False
    with bp have "build_project env tp0 arch0 clean v bt w = ?rest ?w1"
      by (simp add: then_do_Inr)
    then show thesis
      by (intro after [of ?w1 ?banner]) (simp_all add: only_creates_refl)
  next
    case True
    show thesis
    proof (cases rule: clean_old_build_cases [of env bd cdir ?w1])
      case (raised e ls f)
      with bp True have "build_project env tp0 arch0 clean v bt w
          = (Inl e, ?w1\<lparr>fs := f, trace := trace ?w1 @ map Print ls\<rparr>)"
        by (simp add: then_do_Inl)
      then show thesis
      proof (rule R [of e _ "?banner @ ls"])
        show "trace (?w1\<lparr>fs := f, trace := trace ?w1 @ map Print ls\<rparr>)
            = trace w @ map Print (?banner @ ls)"
          by simp
        show "only_creates ?S (fs w) (fs (?w1\<lparr>fs := f, trace := trace ?w1 @ map Print ls\<rparr>))"
          if "\<not> clean"
          using that True by simp
      qed
    next
      case (cleaned ls f)
      with bp True have "build_project env tp0 arch0 clean v bt w
          = ?rest (?w1\<lparr>fs := f, trace := trace ?w1 @ map Print ls\<rparr>)"
        by (simp add: then_do_Inr)
      then show thesis
        using True by (intro after [of _ "?banner @ ls"]) simp_all
    qed
  qed
qed

lemma build_project_facts:
  fixes env tp0 arch0 bt v
  defines "tp \<equiv> select_platform env tp0"
  shows "\<exists>new. trace (snd (build_project env tp0 arch0 clean v bt w)) = trace w @ new
     \<and> build_facts
          (build_steps tp (fmt_opt (select_arch tp arch0)) bt v (conan_dir_str env) (cpu_count env)
             (environ env ''ANDROID_NDK_HOME'') (environ env ''QNX_SDP_HOME''))
          new (fst (build_project env tp0 arch0 clean v bt w))"
proof (cases rule: build_project_split [of env tp0 arch0 clean v bt w])
  case (raised e ls w')
  then show ?thesis
    by (auto intro!: exI [of _ "map Print ls"] build_facts_raised_prints)
next
  case (built ls w4)
  let ?bd = "Child (script_dir env) ''build''"
  let ?cdir = "Child (script_dir env) ''conan''"
  let ?pb = "platform_build env tp (script_dir env) ?cdir ?bd bt (select_arch tp arch0) v w4"
  let ?steps = "build_steps tp (fmt_opt (select_arch tp arch0)) bt v (conan_dir_str env)
      (cpu_count env) (environ env ''ANDROID_NDK_HOME'') (environ env ''QNX_SDP_HOME'')"
  from platform_build_facts [of tp "select_arch tp arch0" env "script_dir env" ?cdir ?bd bt v w4]
  obtain new where new: "trace (snd ?pb) = trace w4 @ new" "build_facts ?steps new (fst ?pb)"
    by (auto simp: select_arch_truthy conan_dir_str_def)
  have bp: "build_project env tp0 arch0 clean v bt w
      = then_do ?pb (\<lambda>success w5. (Inr success, if success then print_all success_lines w5 else w5))"
    using built(2) by (simp add: tp_def)
  show ?thesis
  proof (cases "fst ?pb")
    case (Inl e)
    then have "build_project env tp0 arch0 clean v bt w = (Inl e, snd ?pb)"
      unfolding bp by (cases ?pb) (simp add: then_do_Inl)
    with new built(1) Inl show ?thesis
      by (auto intro!: exI [of _ "map Print ls @ new"] build_facts_prints)
  next
    case (Inr success)
    show ?thesis
    proof (cases success)
      case True
      with Inr have "build_project env tp0 arch0 clean v bt w
          = (Inr True, print_all success_lines (snd ?pb))"
        unfolding bp by (cases ?pb) (simp add: then_do_Inr)
      moreover have "build_facts ?steps (map Print ls @ new @ map Print success_lines) (Inr True)"
        using new(2) Inr True by (auto intro!: build_facts_prints build_facts_success)
      ultimately show ?thesis
        using new(1) built(1)
        by (auto simp: print_all_world
            intro!: exI [of _ "map Print ls @ new @ map Print success_lines"])
    next
      case False
      with Inr have "build_project env tp0 arch0 clean v bt w = (Inr False, snd ?pb)"
        unfolding bp by (cases ?pb) (simp add: then_do_Inr)
      with new built(1) Inr False show ?thesis
        by (auto intro!: exI [of _ "map Print ls @ new"] build_facts_prints)
    qed
  qed
qed

lemma then_do_fs_final:
  "fs (snd (then_do m (\<lambda>success w5. (Inr success, if success then print_all ls w5 else w5))))
   = fs (snd m)"
  by (cases m) (auto simp: then_do_def print_all_world split: sum.splits)

lemma build_project_fs:
  assumes "\<not> clean"
  shows "only_creates
     {build_dir_str env, conan_dir_str env, build_dir_str env @ os_sep env @ ''android'',
      build_dir_str env @ os_sep env @ ''qnx''}
     (fs w) (fs (snd (build_project env tp0 arch0 clean v bt w)))"
proof (cases rule: build_project_split [of env tp0 arch0 clean v bt w])
  case (raised e ls w')
  with assms show ?thesis
    by (auto simp: build_dir_str_def conan_dir_str_def elim!: only_creates_mono)
next
  case (built ls w4)
  let ?bd = "Child (script_dir env) ''build''"
  have "only_creates
     ({build_dir_str env, conan_dir_str env}
      \<union> {path_str (os_sep env) (Child ?bd ''android''), path_str (os_sep env) (Child ?bd ''qnx'')})
     (fs w) (fs (snd (build_project env tp0 arch0 clean v bt w)))"
    unfolding built(2) then_do_fs_final
    using built(3) [OF assms] platform_build_fs
    unfolding build_dir_str_def conan_dir_str_def
    by (rule only_creates_trans)
  then show ?thesis
    by (rule only_creates_mono) (auto simp: build_dir_str_def)
qed

lemma check_android_prerequisites_world:
  "fs (snd (check_android_prerequisites env w)) = fs w
   \<and> (\<exists>m. trace (snd (check_android_prerequisites env w)) = trace w @ [Print m]
          \<and> (\<not> fst (check_android_prerequisites env w) \<longrightarrow> prefix ''Error: '' m))"
  by (simp add: check_android_prerequisites_def Let_def print_def)

lemma check_qnx_prerequisites_world:
  "fs (snd (check_qnx_prerequisites env w)) = fs w
   \<and> (\<exists>m. trace (snd (check_qnx_prerequisites env w)) = trace w @ [Print m]
          \<and> (\<not> fst (check_qnx_prerequisites env w) \<longrightarrow> prefix ''Error: '' m))"
  by (simp add: check_qnx_prerequisites_def Let_def print_def)

lemma platform_checks_facts:
  "fs (snd (platform_checks env tp w5)) = fs w5
     \<and> (\<exists>ls. trace (snd (platform_checks env tp w5)) = trace w5 @ map Print ls \<and> ls \<noteq> []
            \<and> (fst (platform_checks env tp w5) = Inr True
                \<or> fst (platform_checks env tp w5) = Inr False)
            \<and> (fst (platform_checks env tp w5) = Inr False \<longrightarrow> prefix ''Error: '' (last ls)))"
proof -
  consider (android) "tp = Some ''android''" | (qnx) "tp = Some ''qnx''" "tp \<noteq> Some ''android''"
    | (other) "tp \<noteq> Some ''android''" "tp \<noteq> Some ''qnx''"
    by blast
  then show ?thesis
  proof cases
    case android
    from check_android_prerequisites_world [of env w5] obtain m where
      m: "fs (snd (check_android_prerequisites env w5)) = fs w5"
        "trace (snd (check_android_prerequisites env w5)) = trace w5 @ [Print m]"
        "\<not> fst (check_android_prerequisites env w5) \<longrightarrow> prefix ''Error: '' m"
      by blast
    show ?thesis
    proof (cases "fst (check_android_prerequisites env w5)")
      case True
      with m android show ?thesis
        unfolding platform_checks_def
        by (cases "check_android_prerequisites env w5")
          (auto simp: print_def intro!: exI [of _ "[m, ''Prerequisites check completed'']"])
    next
      case False
      with m android show ?thesis
        unfolding platform_checks_def
        by (cases "check_android_prerequisites env w5") (auto intro!: exI [of _ "[m]"])
    qed
  next
    case qnx
    from check_qnx_prerequisites_world [of env w5] obtain m where
      m: "fs (snd (check_qnx_prerequisites env w5)) = fs w5"
        "trace (snd (check_qnx_prerequisites env w5)) = trace w5 @ [Print m]"
        "\<not> fst (check_qnx_prerequisites env w5) \<longrightarrow> prefix ''Error: '' m"
      by blast
    show ?thesis
    proof (cases "fst (check_qnx_prerequisites env w5)")
      case True
      with m qnx show ?thesis
        unfolding platform_checks_def
        by (cases "check_qnx_prerequisites env w5")
          (auto simp: print_def intro!: exI [of _ "[m, ''Prerequisites check completed'']"])
    next
      case False
      with m qnx show ?thesis
        unfolding platform_checks_def
        by (cases "check_qnx_prerequisites env w5") (auto intro!: exI [of _ "[m]"])
    qed
  next
    case other
    then show ?thesis
      unfolding platform_checks_def
      by (auto simp: print_def intro!: exI [of _ "[''Prerequisites check completed'']"])
  qed
qed

lemma last_map_Print: "ls \<noteq> [] \<Longrightarrow> last (map Print ls) = Print (last ls)"
  by (simp add: last_map)

lemma check_prerequisites_facts:
  "fs (snd (check_prerequisites env tp w)) = fs w
   \<and> (\<exists>new. trace (snd (check_prerequisites env tp w)) = trace w @ new
          \<and> prereq_facts new (fst (check_prerequisites env tp w)))"
proof -
  let ?p1 = "Print ''Checking build prerequisites...''"
  show ?thesis
  proof (cases "spawn env (trace w @ [?p1]) conan_probe None")
    case NotFound
    then show ?thesis
      by (auto simp: check_prerequisites_def Let_def subprocess_run_def print_def prereq_facts_def)
  next
    case c1: (Completed rc out)
    show ?thesis
    proof (cases "rc = 0")
      case False
      with c1 show ?thesis
        by (auto simp: check_prerequisites_def Let_def subprocess_run_def print_def
            prereq_facts_def)
    next
      case rc: True
      let ?s1 = "Spawn conan_probe None (Completed 0 out)"
      let ?p2 = "Print (''Conan version: '' @ strip out)"
      show ?thesis
      proof (cases "spawn env (trace w @ [?p1, ?s1, ?p2]) cmake_probe None")
        case NotFound
        with c1 rc show ?thesis
          by (auto simp: check_prerequisites_def Let_def subprocess_run_def print_def
              prereq_facts_def)
      next
        case c2: (Completed rc' out')
        show ?thesis
        proof (cases "rc' = 0")
          case False
          with c1 rc c2 show ?thesis
            by (auto simp: check_prerequisites_def Let_def subprocess_run_def print_def
                prereq_facts_def)
        next
          case rc': True
          let ?s2 = "Spawn cmake_probe None (Completed 0 out')"
          show ?thesis
          proof (cases "index2 (split_char CHR '' '' out')")
            case (Inl e)
            with c1 rc c2 rc' show ?thesis
              by (auto simp: check_prerequisites_def Let_def subprocess_run_def print_def
                  prereq_facts_def)
          next
            case (Inr vv)
            let ?p3 = "Print (''CMake version: '' @ strip vv)"
            let ?w5 = "w\<lparr>trace := trace w @ [?p1, ?s1, ?p2, ?s2, ?p3]\<rparr>"
            let ?blk = "platform_checks env tp ?w5"
            have eq: "check_prerequisites env tp w = ?blk"
              using c1 rc c2 rc' Inr
              by (simp add: check_prerequisites_def Let_def subprocess_run_def print_def)
            from platform_checks_facts [of env tp ?w5] obtain ls where
              ls: "fs (snd ?blk) = fs ?w5" "trace (snd ?blk) = trace ?w5 @ map Print ls" "ls \<noteq> []"
                "fst ?blk = Inr True \<or> fst ?blk = Inr False"
                "fst ?blk = Inr False \<longrightarrow> prefix ''Error: '' (last ls)"
              by blast
            have "prereq_facts ([?p1, ?s1, ?p2, ?s2, ?p3] @ map Print ls) (fst ?blk)"
              using ls(3,5) by (auto simp: prereq_facts_def commands_append last_map_Print)
            with ls(1,2) show ?thesis
              unfolding eq by (intro conjI exI [of _ "[?p1, ?s1, ?p2, ?s2, ?p3] @ map Print ls"]) simp_all
          qed
        qed
      qed
    qed
  qed
qed

lemma prefix_same_length: "prefix xs ys \<Longrightarrow> length xs = length ys \<Longrightarrow> xs = ys"
  by (auto simp: prefix_def)

lemma build_facts_True:
  assumes "build_facts steps new (Inr True)"
  shows "commands new = map fst steps" and "\<forall>e\<in>set new. \<not> failed e"
  using assms unfolding build_facts_def by (auto intro: prefix_same_length)

lemma main_unfold:
  fixes env a fs0
  defines "chk \<equiv> check_prerequisites env (args_platform a) \<lparr>fs = fs0, trace = []\<rparr>"
  defines "bp \<equiv> build_project env (args_platform a) (args_arch a) (args_clean a)
                  (args_verbose a) (args_build_type a) (snd chk)"
  shows "main env a fs0 =
     (case fst chk of
        Inl e \<Rightarrow> (Uncaught e, snd chk)
      | Inr False \<Rightarrow> (Exit 1, snd chk)
      | Inr True \<Rightarrow>
          (case fst bp of
             Inl e \<Rightarrow> (Uncaught e, snd bp)
           | Inr success \<Rightarrow> (Exit (if success then 0 else 1), snd bp)))"
  unfolding main_def chk_def bp_def
  by (auto split: prod.splits sum.splits bool.splits)

lemma main_facts:
  fixes env a fs0
  defines "chk \<equiv> check_prerequisites env (args_platform a) \<lparr>fs = fs0, trace = []\<rparr>"
  defines "tp \<equiv> select_platform env (args_platform a)"
  defines "steps \<equiv> build_steps tp (fmt_opt (select_arch tp (args_arch a))) (args_build_type a)
      (args_verbose a) (conan_dir_str env) (cpu_count env) (environ env ''ANDROID_NDK_HOME'')
      (environ env ''QNX_SDP_HOME'')"
  obtains (stopped) "fst chk \<noteq> Inr True" "snd (main env a fs0) = snd chk"
      "fst (main env a fs0) = (case fst chk of Inl e \<Rightarrow> Uncaught e | Inr b \<Rightarrow> Exit 1)"
      "prereq_facts (trace (snd chk)) (fst chk)" "fs (snd chk) = fs0"
  | (built) new r where "fst chk = Inr True"
      "trace (snd (main env a fs0)) = trace (snd chk) @ new"
      "prereq_facts (trace (snd chk)) (Inr True)"
      "build_facts steps new r"
      "fst (main env a fs0) = (case r of Inl e \<Rightarrow> Uncaught e | Inr b \<Rightarrow> Exit (if b then 0 else 1))"
      "fs (snd chk) = fs0"
      "\<not> args_clean a \<Longrightarrow> only_creates
         {build_dir_str env, conan_dir_str env, build_dir_str env @ os_sep env @ ''android'',
          build_dir_str env @ os_sep env @ ''qnx''} fs0 (fs (snd (main env a fs0)))"
proof -
  note S = that(1) and B = that(2)
  let ?bp = "build_project env (args_platform a) (args_arch a) (args_clean a)
      (args_verbose a) (args_build_type a) (snd chk)"
  from check_prerequisites_facts [of env "args_platform a" "\<lparr>fs = fs0, trace = []\<rparr>"]
  have chk: "fs (snd chk) = fs0" "prereq_facts (trace (snd chk)) (fst chk)"
    by (auto simp: chk_def)
  show thesis
  proof (cases "fst chk = Inr True")
    case False
    then have "snd (main env a fs0) = snd chk"
      "fst (main env a fs0) = (case fst chk of Inl e \<Rightarrow> Uncaught e | Inr b \<Rightarrow> Exit 1)"
      unfolding main_unfold chk_def by (auto split: sum.splits bool.splits)
    with False chk show thesis by (intro S)
  next
    case True
    from build_project_facts [of env "args_platform a" "args_arch a" "args_clean a"
        "args_verbose a" "args_build_type a" "snd chk"]
    obtain new where new: "trace (snd ?bp) = trace (snd chk) @ new" "build_facts steps new (fst ?bp)"
      unfolding steps_def tp_def by blast
    have m: "main env a fs0 =
        (case fst ?bp of Inl e \<Rightarrow> (Uncaught e, snd ?bp)
         | Inr success \<Rightarrow> (Exit (if success then 0 else 1), snd ?bp))"
      using True unfolding main_unfold chk_def by simp
    then have m1: "snd (main env a fs0) = snd ?bp"
      and m2: "fst (main env a fs0)
        = (case fst ?bp of Inl e \<Rightarrow> Uncaught e | Inr b \<Rightarrow> Exit (if b then 0 else 1))"
      by (auto split: sum.splits)
    have frame: "only_creates
         {build_dir_str env, conan_dir_str env, build_dir_str env @ os_sep env @ ''android'',
          build_dir_str env @ os_sep env @ ''qnx''} fs0 (fs (snd (main env a fs0)))"
      if "\<not> args_clean a"
      using build_project_fs [OF that, of env "snd chk"] chk(1) unfolding m1 by simp
    show thesis
      using True new chk frame m1 m2 by (intro B [of new "fst ?bp"]) simp_all
  qed
qed

lemma build_functions_facts:
  assumes "(bf, target, dflt) \<in>
      {(build_for_windows, ''windows'', ''x86_64''), (build_for_linux, ''linux'', ''x86_64''),
       (build_for_android, ''android'', ''armv8''), (build_for_qnx, ''qnx'', ''armv7'')}"
  shows "\<exists>new. trace (snd (bf env pr cdir bd bt arch v w)) = trace w @ new
     \<and> build_facts
          (build_steps target (or_default arch dflt) bt v (path_str (os_sep env) cdir)
             (cpu_count env) (environ env ''ANDROID_NDK_HOME'') (environ env ''QNX_SDP_HOME''))
          new (fst (bf env pr cdir bd bt arch v w))"
  using assms build_for_windows_facts build_for_linux_facts build_for_android_facts
    build_for_qnx_facts
  by auto


lemma spawns_append: "spawns (xs @ ys) = spawns xs @ spawns ys"
  by (induction xs rule: spawns.induct) simp_all

lemma spawns_prints [simp]: "spawns (map Print ls) = []"
  by (induction ls) simp_all

lemma platform_checks_result:
  "fst (platform_checks env tp w) = Inr True
   \<longleftrightarrow> (tp = Some ''android'' \<longrightarrow> home_ok env w ''ANDROID_NDK_HOME'')
       \<and> (tp = Some ''qnx'' \<longrightarrow> home_ok env w ''QNX_SDP_HOME'')"
  by (auto simp: platform_checks_def check_android_prerequisites_def
      check_qnx_prerequisites_def Let_def home_ok_def truthy_def fmt_opt_def path_exists_def
      split: option.splits)

lemma platform_checks_result_fs:
  "fs w' = fs w \<Longrightarrow>
   fst (platform_checks env tp w') = Inr True
   \<longleftrightarrow> (tp = Some ''android'' \<longrightarrow> home_ok env w ''ANDROID_NDK_HOME'')
       \<and> (tp = Some ''qnx'' \<longrightarrow> home_ok env w ''QNX_SDP_HOME'')"
  unfolding platform_checks_result by (simp add: home_ok_def split: option.splits)

lemma build_steps_no_probe:
  "conan_probe \<notin> set (map fst (build_steps target arch build_type verbose cd jobs ndk_home sdp_home))
   \<and> cmake_probe \<notin> set (map fst (build_steps target arch build_type verbose cd jobs ndk_home sdp_home))"
proof -
  have "c \<noteq> conan_probe \<and> c \<noteq> cmake_probe"
    if "(c, m) \<in> set (build_steps target arch build_type verbose cd jobs ndk_home sdp_home)"
    for c m
  proof -
    from that have "take 2 c \<in> {[''conan'', ''install''], [''cmake'', ''-S''], [''cmake'', ''--build'']}"
      by (auto simp: build_steps_def
          windows_install_cmd_def windows_configure_cmd_def
          windows_build_cmd_def linux_install_cmd_def linux_configure_cmd_def linux_build_cmd_def
          android_install_cmd_def android_configure_cmd_def android_build_cmd_def
          qnx_install_cmd_def qnx_configure_cmd_def qnx_build_cmd_def
          split: if_splits option.splits)
    then show ?thesis by (auto simp: conan_probe_def cmake_probe_def)
  qed
  then show ?thesis by force
qed

lemma accepted_steps:
  assumes "accepted a"
    and "build_steps (select_platform env (args_platform a))
        (fmt_opt (select_arch (select_platform env (args_platform a)) (args_arch a)))
        bt v cd jobs ndk sdp = []"
  shows "args_platform a = None \<and> detect_platform env \<notin> set platform_choices"
proof -
  let ?tp = "select_platform env (args_platform a)"
  have abi: "arch_to_abi (fmt_opt (select_arch ''android'' (args_arch a))) \<noteq> None"
    using assms(1)
    by (auto simp: accepted_def arch_choices_def select_arch_def truthy_def fmt_opt_def
        arch_to_abi_def split: option.splits)
  have "?tp \<notin> set platform_choices"
  proof
    assume "?tp \<in> set platform_choices"
    then consider "?tp = ''windows''" | "?tp = ''linux''" | "?tp = ''android''" | "?tp = ''qnx''"
      by (auto simp: platform_choices_def)
    then show False
    proof cases
      case 3
      with assms(2) abi show False by (auto simp: build_steps_def split: option.splits)
    qed (use assms(2) in \<open>simp_all add: build_steps_def\<close>)
  qed
  moreover have "?tp \<in> set platform_choices" if "args_platform a = Some p" for p
    using assms(1) that
    by (auto simp: accepted_def select_platform_def truthy_def fmt_opt_def platform_choices_def)
  ultimately show ?thesis
    by (cases "args_platform a") (auto simp: select_platform_def truthy_def)
qed

lemmas run_defs =
  main_def check_prerequisites_def platform_checks_def check_android_prerequisites_def
  check_qnx_prerequisites_def build_project_def platform_build_def build_for_windows_def
  build_for_linux_def build_for_android_def build_for_qnx_def clean_old_build_def
  select_platform_def select_arch_def detect_platform_def
  run_checked_def subprocess_run_def print_def print_all_world mkdir_exist_ok_def rmtree_def
  then_do_def and_then_def Let_def truthy_def fmt_opt_def or_default_def index2_def
  path_exists_def lower_def lower_char_def

lemmas input_defs =
  proj_def env_ok_def env_eight_def env_mac_def env_no_conan_def env_failing_def env_ndk_def
  fs_proj_def fs_ndk_dir_def fs_ndk_file_def fs_built_def args_default_def args_linux_def
  args_cleaning_def

lemma main_ok: "fst (main env_ok args_default fs_proj) = Exit 0"
  by (simp add: run_defs input_defs)

section \<open>The claims\<close>

text \<open>
  \<^bold>\<open>C1\<close>, as amended. The command lines of a run are a prefix of one fixed table, and
  the whole table when the run exits with 0. The table is keyed by the target, the
  architecture and the build type the run settled on, and also by the verbose flag, the
  directory of the script, the CPU count of the host (the last command of a Linux build)
  and the variables \<^verbatim>\<open>ANDROID_NDK_HOME\<close> and \<^verbatim>\<open>QNX_SDP_HOME\<close> (the configure command of
  an Android and of a QNX build). How long the prefix is depends on what the commands
  return.
\<close>

theorem main_command_table:
  assumes "target = select_platform env (args_platform a)"
    and "arch = fmt_opt (select_arch target (args_arch a))"
    and "table = command_table target arch (args_build_type a) (args_verbose a)
           (conan_dir_str env) (cpu_count env)
           (environ env ''ANDROID_NDK_HOME'') (environ env ''QNX_SDP_HOME'')"
  shows "prefix (commands (trace (snd (main env a fs0)))) table
     \<and> (fst (main env a fs0) = Exit 0 \<longrightarrow> commands (trace (snd (main env a fs0))) = table)"
proof (cases rule: main_facts [of env a fs0])
  case stopped
  from stopped(4) have "prefix (commands (trace (snd (main env a fs0)))) [conan_probe, cmake_probe]"
    unfolding stopped(2) prereq_facts_def by simp
  then have "prefix (commands (trace (snd (main env a fs0)))) table"
    unfolding assms(3) command_table_def by (rule prefix_prefix)
  moreover have "fst (main env a fs0) \<noteq> Exit 0"
    unfolding stopped(3) by (simp split: sum.splits)
  ultimately show ?thesis by simp
next
  case (built new r)
  from built(3) have probes: "commands (trace (snd
      (check_prerequisites env (args_platform a) \<lparr>fs = fs0, trace = []\<rparr>)))
      = [conan_probe, cmake_probe]"
    unfolding prereq_facts_def by simp
  from built(4) have pre: "prefix (commands new) (map fst (build_steps target arch
      (args_build_type a) (args_verbose a) (conan_dir_str env) (cpu_count env)
      (environ env ''ANDROID_NDK_HOME'') (environ env ''QNX_SDP_HOME'')))"
    unfolding build_facts_def assms(1,2) by simp
  have 1: "prefix (commands (trace (snd (main env a fs0)))) table"
    unfolding built(2) commands_append probes assms(3) command_table_def using pre by simp
  have 2: "commands (trace (snd (main env a fs0))) = table" if "fst (main env a fs0) = Exit 0"
  proof -
    from that built(5) have "r = Inr True" by (auto split: sum.splits if_splits)
    with built(4) have "commands new = map fst (build_steps target arch
      (args_build_type a) (args_verbose a) (conan_dir_str env) (cpu_count env)
      (environ env ''ANDROID_NDK_HOME'') (environ env ''QNX_SDP_HOME''))"
      unfolding assms(1,2) by (auto dest: build_facts_True(1))
    then show ?thesis
      unfolding built(2) commands_append probes assms(3) command_table_def by simp
  qed
  from 1 2 show ?thesis by simp
qed

theorem main_command_table_witness:
  "''linux'' = select_platform env_ok (args_platform args_default)
   \<and> ''x86_64'' = fmt_opt (select_arch ''linux'' (args_arch args_default))
   \<and> fst (main env_ok args_default fs_proj) = Exit 0
   \<and> commands (trace (snd (main env_ok args_default fs_proj)))
       = command_table ''linux'' ''x86_64'' ''Release'' False ''/proj/conan'' 4 None None"
proof -
  have h1: "''linux'' = select_platform env_ok (args_platform args_default)"
    by (simp add: run_defs input_defs)
  have h2: "''x86_64'' = fmt_opt (select_arch ''linux'' (args_arch args_default))"
    by (simp add: run_defs input_defs)
  have h3: "command_table ''linux'' ''x86_64'' ''Release'' False ''/proj/conan'' 4 None None
      = command_table ''linux'' ''x86_64'' (args_build_type args_default)
          (args_verbose args_default) (conan_dir_str env_ok) (cpu_count env_ok)
          (environ env_ok ''ANDROID_NDK_HOME'') (environ env_ok ''QNX_SDP_HOME'')"
    by (simp add: input_defs conan_dir_str_def)
  from main_command_table [OF h1 h2 h3, of fs_proj] main_ok h1 h2 show ?thesis by simp
qed

text \<open>
  C1 as stated fails: for the accepted triple (linux, x86_64, Release) a host with four
  CPUs and a host with eight produce different command lines.
\<close>

theorem commands_depend_on_cpu_count:
  "accepted args_linux
   \<and> commands (trace (snd (main env_ok args_linux fs_proj)))
       \<noteq> commands (trace (snd (main env_eight args_linux fs_proj)))"
  by (simp add: run_defs input_defs accepted_def platform_choices_def arch_choices_def
      build_type_choices_def linux_build_cmd_def str_nat.simps digit_def commands_append)

text \<open>
  \<^bold>\<open>C2\<close>, as amended. Each of the four build functions runs at most three external
  commands, in this order: \<^verbatim>\<open>conan install\<close>, \<^verbatim>\<open>cmake -S\<close> (configure) and
  \<^verbatim>\<open>cmake --build\<close> (compile); they are a prefix of the row of the table for its target,
  and the whole row, three commands, when the function returns \<^verbatim>\<open>True\<close>.
\<close>

theorem build_functions_commands:
  assumes "(bf, target, dflt) \<in>
      {(build_for_windows, ''windows'', ''x86_64''), (build_for_linux, ''linux'', ''x86_64''),
       (build_for_android, ''android'', ''armv8''), (build_for_qnx, ''qnx'', ''armv7'')}"
    and "trace (snd (bf env project_root conan_dir build_dir build_type arch verbose w))
         = trace w @ new"
    and "table = map fst (build_steps target (or_default arch dflt) build_type verbose
           (path_str (os_sep env) conan_dir) (cpu_count env)
           (environ env ''ANDROID_NDK_HOME'') (environ env ''QNX_SDP_HOME''))"
  shows "prefix (commands new) table \<and> length (commands new) \<le> 3
     \<and> prefix (map (take 2) table)
          [[''conan'', ''install''], [''cmake'', ''-S''], [''cmake'', ''--build'']]
     \<and> (fst (bf env project_root conan_dir build_dir build_type arch verbose w) = Inr True
          \<longrightarrow> commands new = table \<and> length (commands new) = 3)"
proof -
  let ?steps = "build_steps target (or_default arch dflt) build_type verbose
           (path_str (os_sep env) conan_dir) (cpu_count env)
           (environ env ''ANDROID_NDK_HOME'') (environ env ''QNX_SDP_HOME'')"
  let ?r = "fst (bf env project_root conan_dir build_dir build_type arch verbose w)"
  from build_functions_facts [OF assms(1), of env project_root conan_dir build_dir build_type
      arch verbose w] assms(2)
  have facts: "build_facts ?steps new ?r" by auto
  then have pre: "prefix (commands new) table"
    unfolding build_facts_def assms(3) by simp
  have len: "length table \<le> 3"
    unfolding assms(3) using build_steps_length [of target "or_default arch dflt"]
    by (cases "?steps = []") simp_all
  from pre len have le: "length (commands new) \<le> 3"
    using prefix_length_le by fastforce
  have names: "prefix (map (take 2) table)
      [[''conan'', ''install''], [''cmake'', ''-S''], [''cmake'', ''--build'']]"
    unfolding assms(3)
    by (auto simp: build_steps_def windows_install_cmd_def windows_configure_cmd_def
        windows_build_cmd_def linux_install_cmd_def linux_configure_cmd_def linux_build_cmd_def
        android_install_cmd_def android_configure_cmd_def android_build_cmd_def
        qnx_install_cmd_def qnx_configure_cmd_def qnx_build_cmd_def split: option.splits)
  have "commands new = table \<and> length (commands new) = 3" if "?r = Inr True"
  proof -
    from facts that have t: "build_facts ?steps new (Inr True)" by simp
    then have "?steps \<noteq> []" unfolding build_facts_def by simp
    with build_facts_True(1) [OF t] build_steps_length [of target "or_default arch dflt"]
    show ?thesis unfolding assms(3) by simp
  qed
  with pre le names show ?thesis by blast
qed

theorem build_functions_commands_witness:
  "(build_for_linux, ''linux'', ''x86_64'') \<in>
      {(build_for_windows, ''windows'', ''x86_64''), (build_for_linux, ''linux'', ''x86_64''),
       (build_for_android, ''android'', ''armv8''), (build_for_qnx, ''qnx'', ''armv7'')}
   \<and> fst (build_for_linux env_ok proj (Child proj ''conan'') (Child proj ''build'') ''Release''
            None False w_proj) = Inr True
   \<and> commands (trace (snd (build_for_linux env_ok proj (Child proj ''conan'')
         (Child proj ''build'') ''Release'' None False w_proj)))
       = [linux_install_cmd ''/proj/conan'' ''x86_64'' False,
          linux_configure_cmd ''/proj/conan'' ''Release'' ''x86_64'' False,
          linux_build_cmd 4 False]"
proof -
  let ?run = "build_for_linux env_ok proj (Child proj ''conan'') (Child proj ''build'')
      ''Release'' None False w_proj"
  have h1: "(build_for_linux, ''linux'', ''x86_64'') \<in>
      {(build_for_windows, ''windows'', ''x86_64''), (build_for_linux, ''linux'', ''x86_64''),
       (build_for_android, ''android'', ''armv8''), (build_for_qnx, ''qnx'', ''armv7'')}"
    by simp
  have h2: "trace (snd ?run) = trace w_proj @ trace (snd ?run)"
    by (simp add: w_proj_def)
  have h3: "[linux_install_cmd ''/proj/conan'' ''x86_64'' False,
          linux_configure_cmd ''/proj/conan'' ''Release'' ''x86_64'' False,
          linux_build_cmd 4 False]
      = map fst (build_steps ''linux'' (or_default None ''x86_64'') ''Release'' False
           (path_str (os_sep env_ok) (Child proj ''conan'')) (cpu_count env_ok)
           (environ env_ok ''ANDROID_NDK_HOME'') (environ env_ok ''QNX_SDP_HOME''))"
    by (simp add: build_steps_def or_default_def input_defs)
  have ok: "fst ?run = Inr True"
    by (simp add: run_defs input_defs w_proj_def)
  note inst = build_functions_commands [where bf = build_for_linux and target = "''linux''"
      and dflt = "''x86_64''" and env = env_ok and project_root = proj
      and conan_dir = "Child proj ''conan''" and build_dir = "Child proj ''build''"
      and build_type = "''Release''" and arch = None and verbose = False and w = w_proj
      and new = "trace (snd ?run)", OF h1 h2 h3]
  from inst ok have eq: "commands (trace (snd ?run))
      = [linux_install_cmd ''/proj/conan'' ''x86_64'' False,
          linux_configure_cmd ''/proj/conan'' ''Release'' ''x86_64'' False,
          linux_build_cmd 4 False]"
    by (elim conjE impE)
  show ?thesis by (intro conjI h1 ok eq)
qed

text \<open>
  C2 as stated fails: a Linux build in which every command returns 0 runs three
  external commands, not two.
\<close>

theorem build_for_linux_runs_three_commands:
  "fst (build_for_linux env_ok proj (Child proj ''conan'') (Child proj ''build'') ''Release''
          None False w_proj) = Inr True
   \<and> length (commands (trace (snd (build_for_linux env_ok proj (Child proj ''conan'')
         (Child proj ''build'') ''Release'' None False w_proj)))) = 3"
  by (simp add: run_defs input_defs w_proj_def)



text \<open>
  \<^bold>\<open>C4\<close>, as amended. \<^verbatim>\<open>detect_platform\<close> maps every host system name to one of the
  four values \<^verbatim>\<open>windows\<close>, \<^verbatim>\<open>linux\<close>, \<^verbatim>\<open>macos\<close> and \<^verbatim>\<open>unknown\<close>; it never answers
  \<^verbatim>\<open>android\<close> or \<^verbatim>\<open>qnx\<close>, and its answer is a build target only on a Windows or a Linux
  host.
\<close>

theorem detect_platform_values:
  "detect_platform env \<in> {''windows'', ''linux'', ''macos'', ''unknown''}
   \<and> detect_platform env \<notin> {''android'', ''qnx''}
   \<and> (detect_platform env \<in> set platform_choices
        \<longleftrightarrow> lower (system_name env) \<in> {''windows'', ''linux''})"
  by (simp add: detect_platform_def Let_def platform_choices_def)

theorem detect_platform_values_witness:
  "detect_platform env_mac \<in> {''windows'', ''linux'', ''macos'', ''unknown''}
   \<and> detect_platform env_mac \<notin> {''android'', ''qnx''}
   \<and> (detect_platform env_mac \<in> set platform_choices
        \<longleftrightarrow> lower (system_name env_mac) \<in> {''windows'', ''linux''})"
  by (rule detect_platform_values)

text \<open>
  C4 as stated fails: on a Darwin host the function answers \<^verbatim>\<open>macos\<close>, which is none of
  the four build targets.
\<close>

theorem detect_platform_not_a_target:
  "system_name env_mac = ''Darwin''
   \<and> detect_platform env_mac = ''macos''
   \<and> ''macos'' \<notin> set platform_choices"
  by (simp add: detect_platform_def lower_def lower_char_def input_defs platform_choices_def)

text \<open>
  \<^bold>\<open>C5\<close>, as amended. \<^verbatim>\<open>check_prerequisites\<close> runs at most two version probes,
  \<^verbatim>\<open>conan --version\<close> first and \<^verbatim>\<open>cmake --version\<close> only after the first returned 0. It
  returns \<^verbatim>\<open>True\<close> exactly when both probes returned 0, the output of the second has a
  third field, and, for the target \<^verbatim>\<open>android\<close> (\<^verbatim>\<open>qnx\<close>), the variable
  \<^verbatim>\<open>ANDROID_NDK_HOME\<close> (\<^verbatim>\<open>QNX_SDP_HOME\<close>) is set, not empty and names an existing entry
  of the file system, a file or a directory; for any other target no variable is read.
\<close>

theorem check_prerequisites_probes:
  assumes "trace (snd (check_prerequisites env target_platform w)) = trace w @ new"
  shows "prefix (commands new) [conan_probe, cmake_probe]
     \<and> (cmake_probe \<in> set (commands new)
          \<longleftrightarrow> (\<exists>out. Spawn conan_probe None (Completed 0 out) \<in> set new))
     \<and> (fst (check_prerequisites env target_platform w) = Inr True
          \<longleftrightarrow> (\<exists>out out'. spawns new = [Spawn conan_probe None (Completed 0 out),
                                           Spawn cmake_probe None (Completed 0 out')]
                  \<and> 2 < length (split_char CHR '' '' out'))
              \<and> (target_platform = Some ''android'' \<longrightarrow> home_ok env w ''ANDROID_NDK_HOME'')
              \<and> (target_platform = Some ''qnx'' \<longrightarrow> home_ok env w ''QNX_SDP_HOME''))"
proof -
  let ?p1 = "Print ''Checking build prerequisites...''"
  let ?tp = target_platform
  note defs = check_prerequisites_def Let_def subprocess_run_def print_def conan_probe_def
    cmake_probe_def
  show ?thesis
  proof (cases "spawn env (trace w @ [?p1]) conan_probe None")
    case NotFound
    then show ?thesis using assms by (auto simp: defs)
  next
    case c1: (Completed rc out)
    show ?thesis
    proof (cases "rc = 0")
      case False
      with c1 show ?thesis using assms by (auto simp: defs)
    next
      case rc: True
      let ?s1 = "Spawn conan_probe None (Completed 0 out)"
      let ?p2 = "Print (''Conan version: '' @ strip out)"
      show ?thesis
      proof (cases "spawn env (trace w @ [?p1, ?s1, ?p2]) cmake_probe None")
        case NotFound
        with c1 rc show ?thesis using assms by (auto simp: defs)
      next
        case c2: (Completed rc' out')
        show ?thesis
        proof (cases "rc' = 0")
          case False
          with c1 rc c2 show ?thesis using assms by (auto simp: defs)
        next
          case rc': True
          let ?s2 = "Spawn cmake_probe None (Completed 0 out')"
          show ?thesis
          proof (cases "index2 (split_char CHR '' '' out')")
            case (Inl e)
            then have short: "\<not> 2 < length (split_char CHR '' '' out')"
              by (simp add: index2_def split: if_splits)
            from c1 rc c2 rc' Inl show ?thesis using assms short by (auto simp: defs)
          next
            case (Inr vv)
            then have long: "2 < length (split_char CHR '' '' out')"
              by (simp add: index2_def split: if_splits)
            let ?p3 = "Print (''CMake version: '' @ strip vv)"
            let ?w5 = "w\<lparr>trace := trace w @ [?p1, ?s1, ?p2, ?s2, ?p3]\<rparr>"
            have eq: "check_prerequisites env ?tp w = platform_checks env ?tp ?w5"
              using c1 rc c2 rc' Inr
              by (simp add: check_prerequisites_def Let_def subprocess_run_def print_def)
            from platform_checks_facts [of env ?tp ?w5] obtain ls where
              ls: "trace (snd (platform_checks env ?tp ?w5)) = trace ?w5 @ map Print ls"
              by blast
            with assms have new: "new = [?p1, ?s1, ?p2, ?s2, ?p3] @ map Print ls"
              unfolding eq by simp
            have res: "fst (check_prerequisites env ?tp w) = Inr True
                \<longleftrightarrow> (?tp = Some ''android'' \<longrightarrow> home_ok env w ''ANDROID_NDK_HOME'')
                    \<and> (?tp = Some ''qnx'' \<longrightarrow> home_ok env w ''QNX_SDP_HOME'')"
              unfolding eq by (rule platform_checks_result_fs) simp
            have sp: "spawns new = [?s1, ?s2]" "commands new = [conan_probe, cmake_probe]"
              unfolding new by (simp_all add: spawns_append commands_append)
            have in1: "?s1 \<in> set new" unfolding new by simp
            show ?thesis
              unfolding res sp using long in1 by auto
          qed
        qed
      qed
    qed
  qed
qed

theorem check_prerequisites_probes_witness:
  "trace (snd (check_prerequisites env_ndk (Some ''android'') w_ndk_dir))
     = trace w_ndk_dir @ trace (snd (check_prerequisites env_ndk (Some ''android'') w_ndk_dir))
   \<and> fst (check_prerequisites env_ndk (Some ''android'') w_ndk_dir) = Inr True
   \<and> home_ok env_ndk w_ndk_dir ''ANDROID_NDK_HOME''
   \<and> prefix (commands (trace (snd (check_prerequisites env_ndk (Some ''android'') w_ndk_dir))))
         [conan_probe, cmake_probe]"
proof -
  let ?run = "check_prerequisites env_ndk (Some ''android'') w_ndk_dir"
  have h: "trace (snd ?run) = trace w_ndk_dir @ trace (snd ?run)"
    by (simp add: w_ndk_dir_def)
  have ok: "fst ?run = Inr True"
    by (simp add: run_defs input_defs w_ndk_dir_def)
  note inst = check_prerequisites_probes [OF h]
  from inst have pre: "prefix (commands (trace (snd ?run))) [conan_probe, cmake_probe]"
    by (elim conjE)
  from inst ok have "home_ok env_ndk w_ndk_dir ''ANDROID_NDK_HOME''"
    by simp
  with h ok pre show ?thesis by (intro conjI)
qed

text \<open>
  C5 as stated fails twice: the check passes when \<^verbatim>\<open>ANDROID_NDK_HOME\<close> names a regular
  file, and only one probe is run when Conan is not found.
\<close>

theorem check_prerequisites_accepts_a_file:
  "fs w_ndk_file ''/opt/ndk'' = Some File
   \<and> environ env_ndk ''ANDROID_NDK_HOME'' = Some ''/opt/ndk''
   \<and> fst (check_prerequisites env_ndk (Some ''android'') w_ndk_file) = Inr True
   \<and> commands (trace (snd (check_prerequisites env_no_conan None w_proj))) = [conan_probe]"
  by (simp add: run_defs input_defs w_ndk_file_def w_proj_def)

text \<open>
  \<^bold>\<open>C6\<close>. The trace of \<^verbatim>\<open>main\<close> is the trace of the prerequisite check followed by the
  events of the build. The check runs the two probes only; when it does not return
  \<^verbatim>\<open>True\<close> nothing follows it; when the target is not one of the four platforms the build
  runs no command; and no probe is run after the check.
\<close>

theorem prerequisites_before_build:
  assumes "chk = check_prerequisites env (args_platform a) \<lparr>fs = fs0, trace = []\<rparr>"
  shows "\<exists>new. trace (snd (main env a fs0)) = trace (snd chk) @ new
     \<and> set (commands (trace (snd chk))) \<subseteq> {conan_probe, cmake_probe}
     \<and> (fst chk \<noteq> Inr True \<longrightarrow> new = [])
     \<and> (select_platform env (args_platform a) \<notin> set platform_choices \<longrightarrow> commands new = [])
     \<and> conan_probe \<notin> set (commands new) \<and> cmake_probe \<notin> set (commands new)"
proof (cases rule: main_facts [of env a fs0])
  case stopped
  from stopped(4) have "set (commands (trace (snd chk))) \<subseteq> {conan_probe, cmake_probe}"
    unfolding assms prereq_facts_def using set_mono_prefix by fastforce
  with stopped(1,2) show ?thesis
    unfolding assms by (intro exI [of _ "[]"]) simp
next
  case (built new r)
  let ?steps = "build_steps (select_platform env (args_platform a))
        (fmt_opt (select_arch (select_platform env (args_platform a)) (args_arch a)))
        (args_build_type a) (args_verbose a) (conan_dir_str env) (cpu_count env)
        (environ env ''ANDROID_NDK_HOME'') (environ env ''QNX_SDP_HOME'')"
  from built(3) have probes: "set (commands (trace (snd chk))) \<subseteq> {conan_probe, cmake_probe}"
    unfolding assms prereq_facts_def by auto
  from built(4) have pre: "prefix (commands new) (map fst ?steps)"
    unfolding build_facts_def by simp
  then have sub: "set (commands new) \<subseteq> set (map fst ?steps)"
    by (rule set_mono_prefix)
  with build_steps_no_probe [of "select_platform env (args_platform a)"]
  have no: "conan_probe \<notin> set (commands new) \<and> cmake_probe \<notin> set (commands new)"
    by blast
  have "commands new = []" if "select_platform env (args_platform a) \<notin> set platform_choices"
    using pre build_steps_other [OF that] by simp
  with probes no built(1,2) show ?thesis
    unfolding assms by (intro exI [of _ new]) simp
qed

theorem prerequisites_before_build_witness:
  "fst (check_prerequisites env_no_conan (args_platform args_default)
          \<lparr>fs = fs_proj, trace = []\<rparr>) = Inr False
   \<and> trace (snd (main env_no_conan args_default fs_proj))
       = trace (snd (check_prerequisites env_no_conan (args_platform args_default)
                       \<lparr>fs = fs_proj, trace = []\<rparr>))
   \<and> commands (trace (snd (main env_no_conan args_default fs_proj))) = [conan_probe]"
proof -
  let ?chk = "check_prerequisites env_no_conan (args_platform args_default)
      \<lparr>fs = fs_proj, trace = []\<rparr>"
  have failed: "fst ?chk = Inr False"
    by (simp add: run_defs input_defs)
  have probes: "commands (trace (snd ?chk)) = [conan_probe]"
    by (simp add: run_defs input_defs)
  from prerequisites_before_build [OF refl, of env_no_conan args_default fs_proj]
  obtain new where "trace (snd (main env_no_conan args_default fs_proj)) = trace (snd ?chk) @ new"
    "fst ?chk \<noteq> Inr True \<longrightarrow> new = []"
    by blast
  with failed have "trace (snd (main env_no_conan args_default fs_proj)) = trace (snd ?chk)"
    by simp
  with failed probes show ?thesis by simp
qed

text \<open>
  \<^bold>\<open>C7\<close>, as amended. A run with accepted arguments that does not exit with 0 has exit
  status 1. Unless an exception went uncaught, the last event of its trace is a printed
  line starting \<^verbatim>\<open>Error: \<close>, and the failure is of one of three kinds: the prerequisite
  check returned \<^verbatim>\<open>False\<close>, an external command returned non-zero, or no platform was
  given and the detected one is not a build target.
\<close>

theorem failures_print_and_exit_1:
  assumes "accepted a" and "fst (main env a fs0) \<noteq> Exit 0"
  shows "exit_status (fst (main env a fs0)) = 1
     \<and> ((\<exists>e. fst (main env a fs0) = Uncaught e)
        \<or> ((\<exists>m. last (trace (snd (main env a fs0))) = Print m \<and> prefix ''Error: '' m)
           \<and> (fst (check_prerequisites env (args_platform a) \<lparr>fs = fs0, trace = []\<rparr>) = Inr False
              \<or> (\<exists>c d rc out. Spawn c d (Completed rc out) \<in> set (trace (snd (main env a fs0)))
                    \<and> rc \<noteq> 0)
              \<or> (args_platform a = None \<and> detect_platform env \<notin> set platform_choices))))"
proof (cases rule: main_facts [of env a fs0])
  case stopped
  let ?chk = "check_prerequisites env (args_platform a) \<lparr>fs = fs0, trace = []\<rparr>"
  show ?thesis
  proof (cases "fst ?chk")
    case (Inl e)
    with stopped(3) show ?thesis by simp
  next
    case (Inr b)
    with stopped(1) have f: "fst ?chk = Inr False" by (cases b) simp_all
    with stopped(4) have "\<exists>m. last (trace (snd ?chk)) = Print m \<and> prefix ''Error: '' m"
      unfolding prereq_facts_def by simp
    with f stopped(2,3) show ?thesis by simp
  qed
next
  case (built new r)
  show ?thesis
  proof (cases r)
    case (Inl e)
    with built(5) show ?thesis by simp
  next
    case (Inr b)
    with built(5) assms(2) have r: "r = Inr False" by (cases b) simp_all
    with built(4) have new: "new \<noteq> []" "\<exists>m. last new = Print m \<and> prefix ''Error: '' m"
      and why: "build_steps (select_platform env (args_platform a))
        (fmt_opt (select_arch (select_platform env (args_platform a)) (args_arch a)))
        (args_build_type a) (args_verbose a) (conan_dir_str env) (cpu_count env)
        (environ env ''ANDROID_NDK_HOME'') (environ env ''QNX_SDP_HOME'') = []
        \<or> (\<exists>c d rc out. Spawn c d (Completed rc out) \<in> set new \<and> rc \<noteq> 0)"
      unfolding build_facts_def by simp_all
    from why have "(\<exists>c d rc out. Spawn c d (Completed rc out) \<in> set (trace (snd (main env a fs0)))
                    \<and> rc \<noteq> 0)
              \<or> (args_platform a = None \<and> detect_platform env \<notin> set platform_choices)"
    proof
      assume "build_steps (select_platform env (args_platform a))
        (fmt_opt (select_arch (select_platform env (args_platform a)) (args_arch a)))
        (args_build_type a) (args_verbose a) (conan_dir_str env) (cpu_count env)
        (environ env ''ANDROID_NDK_HOME'') (environ env ''QNX_SDP_HOME'') = []"
      from accepted_steps [OF assms(1) this] show ?thesis by simp
    next
      assume "\<exists>c d rc out. Spawn c d (Completed rc out) \<in> set new \<and> rc \<noteq> 0"
      then obtain c d rc out where "Spawn c d (Completed rc out) \<in> set new" "rc \<noteq> 0"
        by blast
      then have "Spawn c d (Completed rc out) \<in> set (trace (snd (main env a fs0))) \<and> rc \<noteq> 0"
        unfolding built(2) by simp
      then show ?thesis by blast
    qed
    moreover have "exit_status (fst (main env a fs0)) = 1"
      unfolding built(5) r by simp
    moreover have "\<exists>m. last (trace (snd (main env a fs0))) = Print m \<and> prefix ''Error: '' m"
      unfolding built(2) using new by simp
    ultimately show ?thesis by blast
  qed
qed

theorem failures_print_and_exit_1_witness:
  "accepted args_default
   \<and> fst (main env_no_conan args_default fs_proj) \<noteq> Exit 0
   \<and> exit_status (fst (main env_no_conan args_default fs_proj)) = 1"
proof -
  have h1: "accepted args_default"
    by (simp add: accepted_def input_defs build_type_choices_def)
  have h2: "fst (main env_no_conan args_default fs_proj) \<noteq> Exit 0"
    by (simp add: run_defs input_defs)
  from failures_print_and_exit_1 [OF h1 h2]
  have "exit_status (fst (main env_no_conan args_default fs_proj)) = 1"
    by (rule conjunct1)
  with h1 h2 show ?thesis by (intro conjI)
qed

text \<open>
  C7 as stated fails: on a Darwin host with no \<^verbatim>\<open>--platform\<close> the run exits with 1 although
  the prerequisite check succeeded and no external command failed; the failure is the
  unsupported platform.
\<close>

theorem unsupported_platform_failure:
  "accepted args_default
   \<and> fst (main env_mac args_default fs_proj) = Exit 1
   \<and> fst (check_prerequisites env_mac (args_platform args_default)
            \<lparr>fs = fs_proj, trace = []\<rparr>) = Inr True
   \<and> filter failed (trace (snd (main env_mac args_default fs_proj))) = []
   \<and> last (trace (snd (main env_mac args_default fs_proj)))
       = Print ''Error: Unsupported platform: macos''"
  by (simp add: run_defs input_defs accepted_def build_type_choices_def banner_def)






text \<open>
  \<^bold>\<open>C10\<close>. In each of the four build functions, after a command that returned non-zero
  no further command is run, and the function returns \<^verbatim>\<open>False\<close>.
\<close>

theorem build_functions_short_circuit:
  assumes "bf \<in> {build_for_windows, build_for_linux, build_for_android, build_for_qnx}"
    and "trace (snd (bf env project_root conan_dir build_dir build_type arch verbose w))
         = trace w @ before @ Spawn cmd cwd (Completed rc out) # after"
    and "rc \<noteq> 0"
  shows "commands after = []
     \<and> fst (bf env project_root conan_dir build_dir build_type arch verbose w) = Inr False"
proof -
  from assms(1) obtain target dflt where "(bf, target, dflt) \<in>
      {(build_for_windows, ''windows'', ''x86_64''), (build_for_linux, ''linux'', ''x86_64''),
       (build_for_android, ''android'', ''armv8''), (build_for_qnx, ''qnx'', ''armv7'')}"
    by auto
  from build_functions_facts [OF this, of env project_root conan_dir build_dir build_type
      arch verbose w] assms(2)
  obtain steps where "build_facts steps (before @ Spawn cmd cwd (Completed rc out) # after)
      (fst (bf env project_root conan_dir build_dir build_type arch verbose w))"
    by auto
  with assms(3) show ?thesis unfolding build_facts_def by blast
qed

theorem build_functions_short_circuit_witness:
  "build_for_linux \<in> {build_for_windows, build_for_linux, build_for_android, build_for_qnx}
   \<and> trace (snd (build_for_linux env_failing proj (Child proj ''conan'') (Child proj ''build'')
         ''Release'' None False w_proj))
       = trace w_proj @ [Print ''Building Linux version...'']
         @ Spawn (linux_install_cmd ''/proj/conan'' ''x86_64'' False) (Some ''/proj'')
             (Completed 1 []) # [Print ''Error: Conan installation failed'']
   \<and> (1::int) \<noteq> 0
   \<and> commands [Print ''Error: Conan installation failed''] = []
   \<and> fst (build_for_linux env_failing proj (Child proj ''conan'') (Child proj ''build'')
         ''Release'' None False w_proj) = Inr False"
proof -
  let ?run = "build_for_linux env_failing proj (Child proj ''conan'') (Child proj ''build'')
         ''Release'' None False w_proj"
  have h1: "build_for_linux
      \<in> {build_for_windows, build_for_linux, build_for_android, build_for_qnx}"
    by simp
  have h2: "trace (snd ?run)
       = trace w_proj @ [Print ''Building Linux version...'']
         @ Spawn (linux_install_cmd ''/proj/conan'' ''x86_64'' False) (Some ''/proj'')
             (Completed 1 []) # [Print ''Error: Conan installation failed'']"
    by (simp add: run_defs input_defs w_proj_def)
  have h3: "(1::int) \<noteq> 0" by simp
  note inst = build_functions_short_circuit [where bf = build_for_linux and env = env_failing
      and project_root = proj and conan_dir = "Child proj ''conan''"
      and build_dir = "Child proj ''build''" and build_type = "''Release''" and arch = None
      and verbose = False and w = w_proj, OF h1 h2 h3]
  from inst have a: "commands [Print ''Error: Conan installation failed''] = []"
    by (elim conjE)
  from inst have b: "fst ?run = Inr False"
    by (elim conjE)
  show ?thesis by (intro conjI h1 h2 h3 a b)
qed

end
